theory Spec2Isabelle
  imports Main "HOL-Library.Word"
begin

section \<open>Data model\<close>

text \<open>
  The parser of \<^verbatim>\<open>src/parse.c\<close> works on the structs that the header \<^verbatim>\<open>9cc.h\<close>
  declares. The fields below are the fields \<^verbatim>\<open>parse.c\<close> reads and writes; the C
  types are those visible in \<^verbatim>\<open>parse.c\<close> (\<^verbatim>\<open>int offset\<close>, \<^verbatim>\<open>int sz\<close>,
  \<^verbatim>\<open>long val\<close>): an \<^verbatim>\<open>int\<close> is a \<open>32 word\<close>, a \<^verbatim>\<open>long\<close> a \<open>64 word\<close>, and
  arithmetic on them wraps. A linked list threaded through a \<^verbatim>\<open>next\<close> field is a HOL
  list, a nullable pointer an \<open>option\<close>.
\<close>

datatype TokenKind = TK_RESERVED | TK_IDENT | TK_STR | TK_NUM | TK_EOF

text \<open>
  Modelled from the spec: the declaration of \<^verbatim>\<open>Token\<close> is missing from the sources.
  \<open>tok_str\<close> is the lexeme (the \<^verbatim>\<open>len\<close> characters at \<^verbatim>\<open>str\<close>); punctuators and
  keywords are both \<open>TK_RESERVED\<close>, since \<^verbatim>\<open>consume\<close> matches either by its text.
\<close>

record Token =
  tok_kind :: TokenKind
  tok_val :: "64 word"
  tok_str :: string
  tok_contents :: string
  tok_cont_len :: "32 word"

datatype TypeKind = TY_CHAR | TY_INT | TY_PTR | TY_ARRAY | TY_STRUCT

text \<open>
  Modelled from the spec: the declarations of \<^verbatim>\<open>Type\<close> and \<^verbatim>\<open>Member\<close> are missing
  from the sources. \<^verbatim>\<open>parse.c\<close> uses \<^verbatim>\<open>kind\<close>, \<^verbatim>\<open>size\<close>, \<^verbatim>\<open>base\<close> and
  \<^verbatim>\<open>members\<close> of a type and \<^verbatim>\<open>ty\<close>, \<^verbatim>\<open>name\<close> and \<^verbatim>\<open>offset\<close> of a member; the
  array length is the \<open>length\<close> of the spec's \<open>Array{base, length}\<close>.
\<close>

datatype Type =
  Type (ty_kind: TypeKind) (ty_size: "32 word") (ty_base: "Type option")
       (ty_array_len: "32 word") (ty_members: "Member list")
and Member =
  Member (mem_ty: Type) (mem_name: string) (mem_offset: "32 word")

text \<open>
  A \<^verbatim>\<open>Var\<close> object lives in the heap \<open>vars\<close> of the parser state; a \<^verbatim>\<open>Var *\<close> is
  its index there, so two variables of one name and type stay distinct objects.
\<close>

type_synonym VarRef = nat

record Var =
  var_name :: string
  var_ty :: Type
  var_is_local :: bool
  var_contents :: "string option"
  var_cont_len :: "32 word"

datatype NodeKind =
  ND_ADD | ND_PTR_ADD | ND_SUB | ND_PTR_SUB | ND_PTR_DIFF | ND_MUL | ND_DIV
| ND_EQ | ND_NE | ND_LT | ND_LE | ND_ASSIGN | ND_MEMBER | ND_ADDR | ND_DEREF
| ND_RETURN | ND_IF | ND_WHILE | ND_FOR | ND_BLOCK | ND_FUNCALL | ND_EXPR_STMT
| ND_STMT_EXPR | ND_VAR | ND_NUM | ND_NULL

text \<open>
  The \<^verbatim>\<open>Node\<close> struct. \<open>nd_tok = None\<close> stands for a \<^verbatim>\<open>tok\<close> that the code never
  assigned (\<^verbatim>\<open>assign\<close> and the statement-expression branch of \<^verbatim>\<open>primary\<close> pass
  an uninitialised local) or for the position past the last token. The statement lists
  \<^verbatim>\<open>body\<close> and \<^verbatim>\<open>args\<close>, chained through \<^verbatim>\<open>next\<close> in C, are lists.
\<close>

datatype Node =
  Node (nd_kind: NodeKind) (nd_tok: "Token option") (nd_ty: "Type option")
       (nd_lhs: "Node option") (nd_rhs: "Node option")
       (nd_cond: "Node option") (nd_then: "Node option") (nd_els: "Node option")
       (nd_init: "Node option") (nd_inc: "Node option")
       (nd_body: "Node list")
       (nd_member: "Member option")
       (nd_funcname: string) (nd_args: "Node list")
       (nd_var: "VarRef option") (nd_val: "64 word")

record Function =
  fn_name :: string
  fn_params :: "VarRef list"
  fn_node :: "Node list"
  fn_locals :: "VarRef list"

record Program =
  prog_globals :: "VarRef list"
  prog_fns :: "Function list"

text \<open>
  \<^verbatim>\<open>error_tok\<close> prints a message at a token and exits; \<open>NullPointer\<close> is the crash of
  reading through a null \<^verbatim>\<open>ty\<close>; \<open>OutOfFuel\<close> is the model's own: the recursion
  bound of the parsing functions below was too small.
\<close>

datatype error = ErrorTok "Token option" string | NullPointer | OutOfFuel

text \<open>
  The parser's global variables: the token cursor \<^verbatim>\<open>token\<close> (the remaining tokens,
  the current one first), the lists \<^verbatim>\<open>locals\<close>, \<^verbatim>\<open>globals\<close> and \<^verbatim>\<open>scope\<close>, the
  heap of \<^verbatim>\<open>Var\<close> objects in allocation order, and the counter of \<^verbatim>\<open>new_label\<close>.
\<close>

record pstate =
  token :: "Token list"
  locals :: "VarRef list"
  globals :: "VarRef list"
  scope :: "VarRef list"
  vars :: "Var list"
  label_cnt :: nat

type_synonym 'a parser = "pstate \<Rightarrow> error + ('a \<times> pstate)"

definition preturn :: "'a \<Rightarrow> 'a parser" where
  "preturn x st = Inr (x, st)"

definition pfail :: "error \<Rightarrow> 'a parser" where
  "pfail e st = Inl e"

definition pbind :: "'a parser \<Rightarrow> ('a \<Rightarrow> 'b parser) \<Rightarrow> 'b parser" where
  "pbind m f st = (case m st of Inl e \<Rightarrow> Inl e | Inr (x, st') \<Rightarrow> f x st')"

section \<open>Type model\<close>

text \<open>
  Modelled from the spec: \<^verbatim>\<open>type.c\<close> is missing from the sources. Section 4.1: the
  integer types are character-width and word-width, a pointer has the machine word size
  (8 bytes here), an array has size \<open>element_size \<times> length\<close>; \<open>is_integer\<close> holds of the
  two integer types.
\<close>

definition char_type :: Type where
  "char_type = Type TY_CHAR 1 None 0 []"

definition int_type :: Type where
  "int_type = Type TY_INT 8 None 0 []"

definition pointer_to :: "Type \<Rightarrow> Type" where
  "pointer_to base = Type TY_PTR 8 (Some base) 0 []"

definition array_of :: "Type \<Rightarrow> 32 word \<Rightarrow> Type" where
  "array_of base len = Type TY_ARRAY (ty_size base * len) (Some base) len []"

definition is_integer :: "Type \<Rightarrow> bool" where
  "is_integer ty = (ty_kind ty = TY_CHAR \<or> ty_kind ty = TY_INT)"

section \<open>Node constructors\<close>

definition new_node :: "NodeKind \<Rightarrow> Token option \<Rightarrow> Node" where
  "new_node kind tok = Node kind tok None None None None None None None None [] None [] [] None 0"

definition set_lhs :: "Node option \<Rightarrow> Node \<Rightarrow> Node" where
  "set_lhs x node = (case node of Node k t ty l r c th e i inc b m f a v n \<Rightarrow>
     Node k t ty x r c th e i inc b m f a v n)"

definition set_rhs :: "Node option \<Rightarrow> Node \<Rightarrow> Node" where
  "set_rhs x node = (case node of Node k t ty l r c th e i inc b m f a v n \<Rightarrow>
     Node k t ty l x c th e i inc b m f a v n)"

definition set_ty :: "Type option \<Rightarrow> Node \<Rightarrow> Node" where
  "set_ty x node = (case node of Node k t ty l r c th e i inc b m f a v n \<Rightarrow>
     Node k t x l r c th e i inc b m f a v n)"

definition set_cond :: "Node option \<Rightarrow> Node \<Rightarrow> Node" where
  "set_cond x node = (case node of Node k t ty l r c th e i inc b m f a v n \<Rightarrow>
     Node k t ty l r x th e i inc b m f a v n)"

definition set_then :: "Node option \<Rightarrow> Node \<Rightarrow> Node" where
  "set_then x node = (case node of Node k t ty l r c th e i inc b m f a v n \<Rightarrow>
     Node k t ty l r c x e i inc b m f a v n)"

definition set_els :: "Node option \<Rightarrow> Node \<Rightarrow> Node" where
  "set_els x node = (case node of Node k t ty l r c th e i inc b m f a v n \<Rightarrow>
     Node k t ty l r c th x i inc b m f a v n)"

definition set_init :: "Node option \<Rightarrow> Node \<Rightarrow> Node" where
  "set_init x node = (case node of Node k t ty l r c th e i inc b m f a v n \<Rightarrow>
     Node k t ty l r c th e x inc b m f a v n)"

definition set_inc :: "Node option \<Rightarrow> Node \<Rightarrow> Node" where
  "set_inc x node = (case node of Node k t ty l r c th e i inc b m f a v n \<Rightarrow>
     Node k t ty l r c th e i x b m f a v n)"

definition set_body :: "Node list \<Rightarrow> Node \<Rightarrow> Node" where
  "set_body x node = (case node of Node k t ty l r c th e i inc b m f a v n \<Rightarrow>
     Node k t ty l r c th e i inc x m f a v n)"

definition set_member :: "Member option \<Rightarrow> Node \<Rightarrow> Node" where
  "set_member x node = (case node of Node k t ty l r c th e i inc b m f a v n \<Rightarrow>
     Node k t ty l r c th e i inc b x f a v n)"

definition set_funcname :: "string \<Rightarrow> Node \<Rightarrow> Node" where
  "set_funcname x node = (case node of Node k t ty l r c th e i inc b m f a v n \<Rightarrow>
     Node k t ty l r c th e i inc b m x a v n)"

definition set_args :: "Node list \<Rightarrow> Node \<Rightarrow> Node" where
  "set_args x node = (case node of Node k t ty l r c th e i inc b m f a v n \<Rightarrow>
     Node k t ty l r c th e i inc b m f x v n)"

definition set_var :: "VarRef option \<Rightarrow> Node \<Rightarrow> Node" where
  "set_var x node = (case node of Node k t ty l r c th e i inc b m f a v n \<Rightarrow>
     Node k t ty l r c th e i inc b m f a x n)"

definition set_val :: "64 word \<Rightarrow> Node \<Rightarrow> Node" where
  "set_val x node = (case node of Node k t ty l r c th e i inc b m f a v n \<Rightarrow>
     Node k t ty l r c th e i inc b m f a v x)"

definition new_binary :: "NodeKind \<Rightarrow> Node \<Rightarrow> Node \<Rightarrow> Token option \<Rightarrow> Node" where
  "new_binary kind lhs rhs tok = set_rhs (Some rhs) (set_lhs (Some lhs) (new_node kind tok))"

definition new_unary :: "NodeKind \<Rightarrow> Node \<Rightarrow> Token option \<Rightarrow> Node" where
  "new_unary kind expr tok = set_lhs (Some expr) (new_node kind tok)"

definition new_num :: "64 word \<Rightarrow> Token option \<Rightarrow> Node" where
  "new_num val tok = set_val val (new_node ND_NUM tok)"

definition new_var_node :: "VarRef \<Rightarrow> Token option \<Rightarrow> Node" where
  "new_var_node var tok = set_var (Some var) (new_node ND_VAR tok)"

section \<open>Token stream primitives\<close>

text \<open>
  Modelled from the spec: the tokenizer (\<^verbatim>\<open>token.c\<close>) is missing from the sources.
  Section 6 lists its primitives: peek-equals, consume-if-equals (token or none),
  expect-exact (fails if absent), expect-identifier, expect-number, at-end-of-input.
  A stream ends with a \<open>TK_EOF\<close> token; no primitive steps past it. The empty list
  (never reached on such a stream) is treated as the end of input.
\<close>

definition cur_tok :: "pstate \<Rightarrow> Token option" where
  "cur_tok st = (case token st of [] \<Rightarrow> None | t # _ \<Rightarrow> Some t)"

definition advance :: "pstate \<Rightarrow> pstate" where
  "advance st = st\<lparr>token := tl (token st)\<rparr>"

definition peek :: "string \<Rightarrow> pstate \<Rightarrow> Token option" where
  "peek s st = (case token st of [] \<Rightarrow> None
     | t # _ \<Rightarrow> if tok_kind t = TK_RESERVED \<and> tok_str t = s then Some t else None)"

definition consume :: "string \<Rightarrow> Token option parser" where
  "consume s st = (case peek s st of None \<Rightarrow> Inr (None, st)
     | Some t \<Rightarrow> Inr (Some t, advance st))"

definition consume_ident :: "Token option parser" where
  "consume_ident st = (case token st of [] \<Rightarrow> Inr (None, st)
     | t # _ \<Rightarrow> if tok_kind t = TK_IDENT then Inr (Some t, advance st) else Inr (None, st))"

definition expect :: "string \<Rightarrow> unit parser" where
  "expect s st = (case peek s st of
       None \<Rightarrow> Inl (ErrorTok (cur_tok st) (''expected '' @ s))
     | Some t \<Rightarrow> Inr ((), advance st))"

definition expect_number :: "64 word parser" where
  "expect_number st = (case token st of [] \<Rightarrow> Inl (ErrorTok None ''expected a number'')
     | t # _ \<Rightarrow> if tok_kind t = TK_NUM then Inr (tok_val t, advance st)
               else Inl (ErrorTok (Some t) ''expected a number''))"

definition expect_ident :: "string parser" where
  "expect_ident st = (case token st of [] \<Rightarrow> Inl (ErrorTok None ''expected an identifier'')
     | t # _ \<Rightarrow> if tok_kind t = TK_IDENT then Inr (tok_str t, advance st)
               else Inl (ErrorTok (Some t) ''expected an identifier''))"

definition at_eof :: "pstate \<Rightarrow> bool" where
  "at_eof st = (case token st of [] \<Rightarrow> True | t # _ \<Rightarrow> tok_kind t = TK_EOF)"

definition error_tok :: "Token option \<Rightarrow> string \<Rightarrow> 'a parser" where
  "error_tok tok msg = pfail (ErrorTok tok msg)"

section \<open>Type annotation\<close>

fun seq_opt :: "(error + 'a) option \<Rightarrow> error + 'a option" where
  "seq_opt None = Inr None"
| "seq_opt (Some (Inl e)) = Inl e"
| "seq_opt (Some (Inr x)) = Inr (Some x)"

fun seq_list :: "(error + 'a) list \<Rightarrow> error + 'a list" where
  "seq_list [] = Inr []"
| "seq_list (Inl e # xs) = Inl e"
| "seq_list (Inr x # xs) = (case seq_list xs of Inl e \<Rightarrow> Inl e | Inr ys \<Rightarrow> Inr (x # ys))"

definition ebind :: "error + 'a \<Rightarrow> ('a \<Rightarrow> error + 'b) \<Rightarrow> error + 'b" where
  "ebind m f = (case m of Inl e \<Rightarrow> Inl e | Inr x \<Rightarrow> f x)"

definition lhs_ty :: "Node \<Rightarrow> Type option" where
  "lhs_ty node = (case nd_lhs node of None \<Rightarrow> None | Some l \<Rightarrow> nd_ty l)"

text \<open>
  Modelled from the spec: \<^verbatim>\<open>add_type\<close> (\<^verbatim>\<open>type.c\<close>) is missing from the sources.
  Section 4.3: the pass fills a node's type after its subtrees': literal, the fixed
  integer type; variable reference, the variable's declared type; unary \<open>&\<close>,
  pointer to the operand's type; unary \<open>*\<close>, the operand's base type, failing if there
  is none; binary arithmetic, comparison and assignment, the left operand's type; member
  access, the member's declared type; call, a fixed default return type. The spec names
  no type for the other kinds, which keep none.
\<close>

definition node_type :: "Var list \<Rightarrow> Node \<Rightarrow> error + Type option" where
  "node_type vs node =
    (if nd_kind node = ND_NUM \<or> nd_kind node = ND_FUNCALL then Inr (Some int_type)
     else if nd_kind node = ND_VAR then
       (case nd_var node of None \<Rightarrow> Inl NullPointer
        | Some v \<Rightarrow> Inr (Some (var_ty (vs ! v))))
     else if nd_kind node = ND_ADDR then
       (case lhs_ty node of None \<Rightarrow> Inl NullPointer
        | Some t \<Rightarrow> Inr (Some (pointer_to t)))
     else if nd_kind node = ND_DEREF then
       (case lhs_ty node of None \<Rightarrow> Inl NullPointer
        | Some t \<Rightarrow> (case ty_base t of
            None \<Rightarrow> Inl (ErrorTok (nd_tok node) ''invalid pointer dereference'')
          | Some b \<Rightarrow> Inr (Some b)))
     else if nd_kind node = ND_MEMBER then
       (case nd_member node of None \<Rightarrow> Inl NullPointer
        | Some m \<Rightarrow> Inr (Some (mem_ty m)))
     else if nd_kind node \<in> {ND_ADD, ND_SUB, ND_PTR_ADD, ND_PTR_SUB, ND_PTR_DIFF, ND_MUL,
          ND_DIV, ND_EQ, ND_NE, ND_LT, ND_LE, ND_ASSIGN} then Inr (lhs_ty node)
     else Inr None)"

primrec add_type :: "Var list \<Rightarrow> Node \<Rightarrow> error + Node" where
  "add_type vs (Node k t ty l r c th e i inc b m f a v n) =
     ebind (seq_opt (map_option (add_type vs) l)) (\<lambda>l'.
     ebind (seq_opt (map_option (add_type vs) r)) (\<lambda>r'.
     ebind (seq_opt (map_option (add_type vs) c)) (\<lambda>c'.
     ebind (seq_opt (map_option (add_type vs) th)) (\<lambda>th'.
     ebind (seq_opt (map_option (add_type vs) e)) (\<lambda>e'.
     ebind (seq_opt (map_option (add_type vs) i)) (\<lambda>i'.
     ebind (seq_opt (map_option (add_type vs) inc)) (\<lambda>inc'.
     ebind (seq_list (map (add_type vs) b)) (\<lambda>b'.
     ebind (seq_list (map (add_type vs) a)) (\<lambda>a'.
     ebind (node_type vs (Node k t ty l' r' c' th' e' i' inc' b' m f a' v n)) (\<lambda>ty'.
       Inr (Node k t ty' l' r' c' th' e' i' inc' b' m f a' v n)))))))))))"

definition add_typeP :: "Node \<Rightarrow> Node parser" where
  "add_typeP node st = (case add_type (vars st) node of
       Inl e \<Rightarrow> Inl e | Inr node' \<Rightarrow> Inr (node', st))"

section \<open>Arithmetic typing: \<^verbatim>\<open>new_add\<close>, \<^verbatim>\<open>new_sub\<close>\<close>

text \<open>
  Both annotate their operands, then read \<^verbatim>\<open>lhs->ty\<close> and \<^verbatim>\<open>rhs->ty\<close>; a null
  \<^verbatim>\<open>ty\<close> there is a crash.
\<close>

definition new_add :: "Node \<Rightarrow> Node \<Rightarrow> Token option \<Rightarrow> Node parser" where
  "new_add lhs rhs tok =
     pbind (add_typeP lhs) (\<lambda>lhs.
     pbind (add_typeP rhs) (\<lambda>rhs.
       (case (nd_ty lhs, nd_ty rhs) of
          (Some lt, Some rt) \<Rightarrow>
            if is_integer lt \<and> is_integer rt then preturn (new_binary ND_ADD lhs rhs tok)
            else if ty_base lt \<noteq> None \<and> is_integer rt then
              preturn (new_binary ND_PTR_ADD lhs rhs tok)
            else if is_integer lt \<and> ty_base rt \<noteq> None then
              preturn (new_binary ND_PTR_ADD rhs lhs tok)
            else error_tok tok ''invalid operands''
        | _ \<Rightarrow> pfail NullPointer)))"

definition new_sub :: "Node \<Rightarrow> Node \<Rightarrow> Token option \<Rightarrow> Node parser" where
  "new_sub lhs rhs tok =
     pbind (add_typeP lhs) (\<lambda>lhs.
     pbind (add_typeP rhs) (\<lambda>rhs.
       (case (nd_ty lhs, nd_ty rhs) of
          (Some lt, Some rt) \<Rightarrow>
            if is_integer lt \<and> is_integer rt then preturn (new_binary ND_SUB lhs rhs tok)
            else if ty_base lt \<noteq> None \<and> is_integer rt then
              preturn (new_binary ND_PTR_SUB lhs rhs tok)
            else if ty_base lt \<noteq> None \<and> ty_base rt \<noteq> None then
              preturn (new_binary ND_PTR_DIFF lhs rhs tok)
            else error_tok tok ''invalid operands''
        | _ \<Rightarrow> pfail NullPointer)))"

section \<open>Scope and variables\<close>

definition pgets :: "(pstate \<Rightarrow> 'a) \<Rightarrow> 'a parser" where
  "pgets f st = Inr (f st, st)"

definition pmodify :: "(pstate \<Rightarrow> pstate) \<Rightarrow> unit parser" where
  "pmodify f st = Inr ((), f st)"

text \<open>
  \<^verbatim>\<open>find_var\<close> walks the scope chain from its head and returns the first variable
  whose name has the token's length and equals its text.
\<close>

fun find_var_in :: "Var list \<Rightarrow> VarRef list \<Rightarrow> Token \<Rightarrow> VarRef option" where
  "find_var_in vs [] tok = None"
| "find_var_in vs (var # vl) tok =
     (if length (var_name (vs ! var)) = length (tok_str tok) \<and>
         take (length (tok_str tok)) (var_name (vs ! var)) = tok_str tok
      then Some var else find_var_in vs vl tok)"

definition find_var :: "pstate \<Rightarrow> Token \<Rightarrow> VarRef option" where
  "find_var st tok = find_var_in (vars st) (scope st) tok"

text \<open>
  \<^verbatim>\<open>new_var\<close> allocates the \<^verbatim>\<open>Var\<close> (zeroed but for name, type and storage class)
  and pushes it on the scope chain.
\<close>

definition new_var :: "string \<Rightarrow> Type \<Rightarrow> bool \<Rightarrow> VarRef parser" where
  "new_var name ty is_local st =
     (let var = length (vars st) in
      Inr (var, st\<lparr>vars := vars st @ [\<lparr>var_name = name, var_ty = ty, var_is_local = is_local,
                                        var_contents = None, var_cont_len = 0\<rparr>],
                   scope := var # scope st\<rparr>))"

definition new_lvar :: "string \<Rightarrow> Type \<Rightarrow> VarRef parser" where
  "new_lvar name ty =
     pbind (new_var name ty True) (\<lambda>var.
     pbind (pmodify (\<lambda>st. st\<lparr>vars := (vars st)[var := (vars st ! var)\<lparr>var_name := name, var_ty := ty\<rparr>]\<rparr>)) (\<lambda>_.
     pbind (pmodify (\<lambda>st. st\<lparr>locals := var # locals st\<rparr>)) (\<lambda>_.
       preturn var)))"

definition new_gvar :: "string \<Rightarrow> Type \<Rightarrow> VarRef parser" where
  "new_gvar name ty =
     pbind (new_var name ty False) (\<lambda>var.
     pbind (pmodify (\<lambda>st. st\<lparr>globals := var # globals st\<rparr>)) (\<lambda>_.
       preturn var))"

text \<open>Decimal digits of the counter, as \<^verbatim>\<open>sprintf\<close> with \<^verbatim>\<open>%d\<close> prints them.\<close>

fun show_nat :: "nat \<Rightarrow> string" where
  "show_nat n = (if n < 10 then [''0123456789'' ! n]
                 else show_nat (n div 10) @ [''0123456789'' ! (n mod 10)])"

declare show_nat.simps [simp del]

definition new_label :: "string parser" where
  "new_label st = Inr (''.L.data.'' @ show_nat (label_cnt st), st\<lparr>label_cnt := label_cnt st + 1\<rparr>)"

section \<open>Types in declarations\<close>

definition is_typename :: "pstate \<Rightarrow> bool" where
  "is_typename st = (peek ''char'' st \<noteq> None \<or> peek ''int'' st \<noteq> None \<or> peek ''struct'' st \<noteq> None)"

text \<open>The loop \<^verbatim>\<open>while (consume("*")) ty = pointer_to(ty)\<close> of \<^verbatim>\<open>basetype\<close>.\<close>

function basetype_loop :: "Type \<Rightarrow> Type parser" where
  "basetype_loop ty st =
     (case consume ''*'' st of
        Inl e \<Rightarrow> Inl e
      | Inr (None, st1) \<Rightarrow> Inr (ty, st1)
      | Inr (Some t, st1) \<Rightarrow> basetype_loop (pointer_to ty) st1)"
  by pat_completeness auto
termination
  by (relation "measure (\<lambda>(ty, st). length (token st))")
     (auto simp: consume_def advance_def peek_def split: option.splits list.splits if_splits)

text \<open>
  \<^verbatim>\<open>read_type_suffix\<close>: the recursive call reads the suffixes that follow, and only
  then is the array of this suffix built. \<^verbatim>\<open>int sz = expect_number()\<close> truncates.
\<close>

function read_type_suffix :: "Type \<Rightarrow> Type parser" where
  "read_type_suffix base st =
     (case consume ''['' st of
        Inl e \<Rightarrow> Inl e
      | Inr (None, st1) \<Rightarrow> Inr (base, st1)
      | Inr (Some t, st1) \<Rightarrow>
          (case expect_number st1 of
             Inl e \<Rightarrow> Inl e
           | Inr (sz, st2) \<Rightarrow>
               (case expect '']'' st2 of
                  Inl e \<Rightarrow> Inl e
                | Inr (u, st3) \<Rightarrow>
                    (case read_type_suffix base st3 of
                       Inl e \<Rightarrow> Inl e
                     | Inr (base', st4) \<Rightarrow> Inr (array_of base' (ucast sz), st4)))))"
  by pat_completeness auto
termination
  by (relation "measure (\<lambda>(ty, st). length (token st))")
     (auto simp: consume_def expect_def expect_number_def advance_def peek_def
           split: option.splits list.splits if_splits)

declare basetype_loop.simps [simp del] read_type_suffix.simps [simp del]

definition set_offset :: "32 word \<Rightarrow> Member \<Rightarrow> Member" where
  "set_offset offset mem = Member (mem_ty mem) (mem_name mem) offset"

text \<open>
  The offset loop of \<^verbatim>\<open>struct_decl\<close>: each member gets the running \<^verbatim>\<open>offset\<close>, which
  then grows by the member's size; the final value is the struct's size.
\<close>

fun assign_offsets :: "32 word \<Rightarrow> Member list \<Rightarrow> Member list \<times> 32 word" where
  "assign_offsets offset [] = ([], offset)"
| "assign_offsets offset (mem # mems) =
     (case assign_offsets (offset + ty_size (mem_ty mem)) mems of
        (mems', fin) \<Rightarrow> (set_offset offset mem # mems', fin))"

fun basetype :: "nat \<Rightarrow> Type parser"
and struct_decl :: "nat \<Rightarrow> Type parser"
and struct_decl_loop :: "nat \<Rightarrow> Member list parser"
and struct_member :: "nat \<Rightarrow> Member parser"
where
  "basetype 0 = pfail OutOfFuel"
| "basetype (Suc n) =
     pbind (pgets is_typename) (\<lambda>b.
     pbind (if \<not> b then pbind (pgets cur_tok) (\<lambda>tok. error_tok tok ''typename expected'')
            else preturn ()) (\<lambda>_.
     pbind (consume ''char'') (\<lambda>c.
     pbind (if c \<noteq> None then preturn char_type
            else pbind (consume ''int'') (\<lambda>i.
                 if i \<noteq> None then preturn int_type else struct_decl n))
       basetype_loop)))"
| "struct_decl 0 = pfail OutOfFuel"
| "struct_decl (Suc n) =
     pbind (expect ''struct'') (\<lambda>_.
     pbind (expect ''{'') (\<lambda>_.
     pbind (struct_decl_loop n) (\<lambda>members.
       (case assign_offsets 0 members of
          (members', offset) \<Rightarrow> preturn (Type TY_STRUCT offset None 0 members')))))"
| "struct_decl_loop 0 = pfail OutOfFuel"
| "struct_decl_loop (Suc n) =
     pbind (consume ''}'') (\<lambda>c.
       if c \<noteq> None then preturn []
       else pbind (struct_member n) (\<lambda>mem.
            pbind (struct_decl_loop n) (\<lambda>mems.
              preturn (mem # mems))))"
| "struct_member 0 = pfail OutOfFuel"
| "struct_member (Suc n) =
     pbind (basetype n) (\<lambda>ty.
     pbind expect_ident (\<lambda>name.
     pbind (read_type_suffix ty) (\<lambda>ty.
     pbind (expect '';'') (\<lambda>_.
       preturn (Member ty name 0)))))"

fun find_member :: "Member list \<Rightarrow> string \<Rightarrow> Member option" where
  "find_member [] name = None"
| "find_member (mem # mems) name = (if mem_name mem = name then Some mem else find_member mems name)"

section \<open>Statements and expressions\<close>

text \<open>
  \<^verbatim>\<open>struct_ref\<close>: the member access \<^verbatim>\<open>lhs.ident\<close>, after the \<^verbatim>\<open>.\<close> is consumed.
\<close>

definition struct_ref :: "Node \<Rightarrow> Node parser" where
  "struct_ref lhs =
     pbind (add_typeP lhs) (\<lambda>lhs.
       (case nd_ty lhs of
          None \<Rightarrow> pfail NullPointer
        | Some ty \<Rightarrow>
            if ty_kind ty \<noteq> TY_STRUCT then error_tok (nd_tok lhs) ''not a struct''
            else
              pbind (pgets cur_tok) (\<lambda>tok.
              pbind expect_ident (\<lambda>name.
                (case find_member (ty_members ty) name of
                   None \<Rightarrow> error_tok tok ''no such member''
                 | Some mem \<Rightarrow> preturn (set_member (Some mem) (new_unary ND_MEMBER lhs tok)))))))"

text \<open>
  The recursive-descent functions (\<open>declarationP\<close> is \<^verbatim>\<open>declaration\<close>, and below
  \<open>functionP\<close> is \<^verbatim>\<open>function\<close>). Each takes a recursion bound, which every call and
  every loop iteration lowers by one; at zero the model gives \<open>OutOfFuel\<close>. The loops
  \<^verbatim>\<open>for (;;)\<close> and \<^verbatim>\<open>while (!consume(...))\<close> are the functions named \<open>_loop\<close>.
\<close>

fun stmt :: "nat \<Rightarrow> Node parser"
and stmt2 :: "nat \<Rightarrow> Node parser"
and stmt2_loop :: "nat \<Rightarrow> Node list parser"
and declarationP :: "nat \<Rightarrow> Node parser"
and read_expr_stmt :: "nat \<Rightarrow> Node parser"
and expr :: "nat \<Rightarrow> Node parser"
and assign :: "nat \<Rightarrow> Node parser"
and equality :: "nat \<Rightarrow> Node parser"
and equality_loop :: "nat \<Rightarrow> Node \<Rightarrow> Node parser"
and relational :: "nat \<Rightarrow> Node parser"
and relational_loop :: "nat \<Rightarrow> Node \<Rightarrow> Node parser"
and add :: "nat \<Rightarrow> Node parser"
and add_loop :: "nat \<Rightarrow> Node \<Rightarrow> Node parser"
and mul :: "nat \<Rightarrow> Node parser"
and mul_loop :: "nat \<Rightarrow> Node \<Rightarrow> Node parser"
and unary :: "nat \<Rightarrow> Node parser"
and postfix :: "nat \<Rightarrow> Node parser"
and postfix_loop :: "nat \<Rightarrow> Node \<Rightarrow> Node parser"
and stmt_expr :: "nat \<Rightarrow> Token option \<Rightarrow> Node parser"
and stmt_expr_loop :: "nat \<Rightarrow> Node list parser"
and func_args :: "nat \<Rightarrow> Node list parser"
and func_args_loop :: "nat \<Rightarrow> Node list parser"
and primary :: "nat \<Rightarrow> Node parser"
where
  "stmt 0 = pfail OutOfFuel"
| "stmt (Suc n) = pbind (stmt2 n) add_typeP"

| "stmt2 0 = pfail OutOfFuel"
| "stmt2 (Suc n) =
     pbind (consume ''return'') (\<lambda>tok.
     if tok \<noteq> None then
       pbind (expr n) (\<lambda>e.
       pbind (expect '';'') (\<lambda>_.
         preturn (new_unary ND_RETURN e tok)))
     else
     pbind (consume ''if'') (\<lambda>tok.
     if tok \<noteq> None then
       pbind (expect ''('') (\<lambda>_.
       pbind (expr n) (\<lambda>cond.
       pbind (expect '')'') (\<lambda>_.
       pbind (stmt n) (\<lambda>thn.
       pbind (consume ''else'') (\<lambda>e.
       pbind (if e \<noteq> None then pbind (stmt n) (\<lambda>els. preturn (Some els)) else preturn None) (\<lambda>els.
         preturn (set_els els (set_then (Some thn) (set_cond (Some cond) (new_node ND_IF tok))))))))))
     else
     pbind (consume ''while'') (\<lambda>tok.
     if tok \<noteq> None then
       pbind (expect ''('') (\<lambda>_.
       pbind (expr n) (\<lambda>cond.
       pbind (expect '')'') (\<lambda>_.
       pbind (stmt n) (\<lambda>thn.
         preturn (set_then (Some thn) (set_cond (Some cond) (new_node ND_WHILE tok)))))))
     else
     pbind (consume ''for'') (\<lambda>tok.
     if tok \<noteq> None then
       pbind (expect ''('') (\<lambda>_.
       pbind (consume '';'') (\<lambda>c.
       pbind (if c = None then
                pbind (read_expr_stmt n) (\<lambda>e. pbind (expect '';'') (\<lambda>_. preturn (Some e)))
              else preturn None) (\<lambda>init.
       pbind (consume '';'') (\<lambda>c.
       pbind (if c = None then
                pbind (expr n) (\<lambda>e. pbind (expect '';'') (\<lambda>_. preturn (Some e)))
              else preturn None) (\<lambda>cond.
       pbind (consume '')'') (\<lambda>c.
       pbind (if c = None then
                pbind (read_expr_stmt n) (\<lambda>e. pbind (expect '')'') (\<lambda>_. preturn (Some e)))
              else preturn None) (\<lambda>inc.
       pbind (stmt n) (\<lambda>thn.
         preturn (set_then (Some thn) (set_inc inc (set_cond cond (set_init init
                    (new_node ND_FOR tok)))))))))))))
     else
     pbind (pgets scope) (\<lambda>sc.
     pbind (consume ''{'') (\<lambda>tok.
     if tok \<noteq> None then
       pbind (stmt2_loop n) (\<lambda>body.
       pbind (pmodify (\<lambda>st. st\<lparr>scope := sc\<rparr>)) (\<lambda>_.
         preturn (set_body body (new_node ND_BLOCK tok))))
     else
     pbind (pgets is_typename) (\<lambda>b.
     if b then declarationP n
     else
       pbind (read_expr_stmt n) (\<lambda>node.
       pbind (expect '';'') (\<lambda>_.
         preturn node)))))))))"

| "stmt2_loop 0 = pfail OutOfFuel"
| "stmt2_loop (Suc n) =
     pbind (consume ''}'') (\<lambda>c.
       if c \<noteq> None then preturn []
       else pbind (stmt n) (\<lambda>s.
            pbind (stmt2_loop n) (\<lambda>ss.
              preturn (s # ss))))"

| "declarationP 0 = pfail OutOfFuel"
| "declarationP (Suc n) =
     pbind (pgets cur_tok) (\<lambda>tok.
     pbind (basetype n) (\<lambda>ty.
     pbind expect_ident (\<lambda>name.
     pbind (read_type_suffix ty) (\<lambda>ty.
     pbind (new_lvar name ty) (\<lambda>var.
     pbind (consume '';'') (\<lambda>c.
     if c \<noteq> None then preturn (new_node ND_NULL tok)
     else
       pbind (expect ''='') (\<lambda>_.
       pbind (expr n) (\<lambda>rhs.
       pbind (expect '';'') (\<lambda>_.
         preturn (new_unary ND_EXPR_STMT
                    (new_binary ND_ASSIGN (new_var_node var tok) rhs tok) tok))))))))))"

| "read_expr_stmt 0 = pfail OutOfFuel"
| "read_expr_stmt (Suc n) =
     pbind (pgets cur_tok) (\<lambda>tok.
     pbind (expr n) (\<lambda>e.
       preturn (new_unary ND_EXPR_STMT e tok)))"

| "expr 0 = pfail OutOfFuel"
| "expr (Suc n) = assign n"

| "assign 0 = pfail OutOfFuel"
| "assign (Suc n) =
     pbind (equality n) (\<lambda>node.
     pbind (consume ''='') (\<lambda>c.
       if c \<noteq> None then
         pbind (assign n) (\<lambda>rhs. preturn (new_binary ND_ASSIGN node rhs None))
       else preturn node))"

| "equality 0 = pfail OutOfFuel"
| "equality (Suc n) = pbind (relational n) (equality_loop n)"

| "equality_loop 0 node = pfail OutOfFuel"
| "equality_loop (Suc n) node =
     pbind (consume ''=='') (\<lambda>tok.
     if tok \<noteq> None then
       pbind (relational n) (\<lambda>rhs. equality_loop n (new_binary ND_EQ node rhs tok))
     else
     pbind (consume ''!='') (\<lambda>tok.
     if tok \<noteq> None then
       pbind (relational n) (\<lambda>rhs. equality_loop n (new_binary ND_NE node rhs tok))
     else preturn node))"

| "relational 0 = pfail OutOfFuel"
| "relational (Suc n) = pbind (add n) (relational_loop n)"

| "relational_loop 0 node = pfail OutOfFuel"
| "relational_loop (Suc n) node =
     pbind (consume ''<'') (\<lambda>tok.
     if tok \<noteq> None then
       pbind (add n) (\<lambda>rhs. relational_loop n (new_binary ND_LT node rhs tok))
     else
     pbind (consume ''<='') (\<lambda>tok.
     if tok \<noteq> None then
       pbind (add n) (\<lambda>rhs. relational_loop n (new_binary ND_LE node rhs tok))
     else
     pbind (consume ''>'') (\<lambda>tok.
     if tok \<noteq> None then
       pbind (add n) (\<lambda>rhs. relational_loop n (new_binary ND_LT rhs node tok))
     else
     pbind (consume ''>='') (\<lambda>tok.
     if tok \<noteq> None then
       pbind (add n) (\<lambda>rhs. relational_loop n (new_binary ND_LE rhs node tok))
     else preturn node))))"

| "add 0 = pfail OutOfFuel"
| "add (Suc n) = pbind (mul n) (add_loop n)"

| "add_loop 0 node = pfail OutOfFuel"
| "add_loop (Suc n) node =
     pbind (consume ''+'') (\<lambda>tok.
     if tok \<noteq> None then
       pbind (mul n) (\<lambda>rhs. pbind (new_add node rhs tok) (add_loop n))
     else
     pbind (consume ''-'') (\<lambda>tok.
     if tok \<noteq> None then
       pbind (mul n) (\<lambda>rhs. pbind (new_sub node rhs tok) (add_loop n))
     else preturn node))"

| "mul 0 = pfail OutOfFuel"
| "mul (Suc n) = pbind (unary n) (mul_loop n)"

| "mul_loop 0 node = pfail OutOfFuel"
| "mul_loop (Suc n) node =
     pbind (consume ''*'') (\<lambda>tok.
     if tok \<noteq> None then
       pbind (unary n) (\<lambda>rhs. mul_loop n (new_binary ND_MUL node rhs tok))
     else
     pbind (consume ''/'') (\<lambda>tok.
     if tok \<noteq> None then
       pbind (unary n) (\<lambda>rhs. mul_loop n (new_binary ND_DIV node rhs tok))
     else preturn node))"

| "unary 0 = pfail OutOfFuel"
| "unary (Suc n) =
     pbind (consume ''+'') (\<lambda>c.
     if c \<noteq> None then unary n
     else
     pbind (consume ''-'') (\<lambda>tok.
     if tok \<noteq> None then
       pbind (unary n) (\<lambda>e. preturn (new_binary ND_SUB (new_num 0 tok) e tok))
     else
     pbind (consume ''&'') (\<lambda>tok.
     if tok \<noteq> None then
       pbind (unary n) (\<lambda>e. preturn (new_unary ND_ADDR e tok))
     else
     pbind (consume ''*'') (\<lambda>tok.
     if tok \<noteq> None then
       pbind (unary n) (\<lambda>e. preturn (new_unary ND_DEREF e tok))
     else postfix n))))"

| "postfix 0 = pfail OutOfFuel"
| "postfix (Suc n) = pbind (primary n) (postfix_loop n)"

| "postfix_loop 0 node = pfail OutOfFuel"
| "postfix_loop (Suc n) node =
     pbind (consume ''['') (\<lambda>tok.
     if tok \<noteq> None then
       pbind (expr n) (\<lambda>idx.
       pbind (new_add node idx tok) (\<lambda>exp.
       pbind (expect '']'') (\<lambda>_.
         postfix_loop n (new_unary ND_DEREF exp tok))))
     else
     pbind (consume ''.'') (\<lambda>tok.
     if tok \<noteq> None then
       pbind (struct_ref node) (postfix_loop n)
     else preturn node))"

| "stmt_expr 0 tok = pfail OutOfFuel"
| "stmt_expr (Suc n) tok =
     pbind (stmt n) (\<lambda>s.
     pbind (stmt_expr_loop n) (\<lambda>ss.
     pbind (expect '')'') (\<lambda>_.
       (let cur = last (s # ss) in
        if nd_kind cur \<noteq> ND_EXPR_STMT then
          error_tok (nd_tok cur) ''stmt expr returning void is not supported''
        else
          (case nd_lhs cur of
             None \<Rightarrow> pfail NullPointer
           | Some e \<Rightarrow> preturn (set_body (butlast (s # ss) @ [e]) (new_node ND_STMT_EXPR tok)))))))"

| "stmt_expr_loop 0 = pfail OutOfFuel"
| "stmt_expr_loop (Suc n) =
     pbind (consume ''}'') (\<lambda>c.
       if c \<noteq> None then preturn []
       else pbind (stmt n) (\<lambda>s.
            pbind (stmt_expr_loop n) (\<lambda>ss.
              preturn (s # ss))))"

| "func_args 0 = pfail OutOfFuel"
| "func_args (Suc n) =
     pbind (consume '')'') (\<lambda>c.
       if c \<noteq> None then preturn []
       else pbind (assign n) (\<lambda>head.
            pbind (func_args_loop n) (\<lambda>rest.
            pbind (expect '')'') (\<lambda>_.
              preturn (head # rest)))))"

| "func_args_loop 0 = pfail OutOfFuel"
| "func_args_loop (Suc n) =
     pbind (consume '','') (\<lambda>c.
       if c \<noteq> None then
         pbind (assign n) (\<lambda>a.
         pbind (func_args_loop n) (\<lambda>as.
           preturn (a # as)))
       else preturn [])"

| "primary 0 = pfail OutOfFuel"
| "primary (Suc n) =
     pbind (consume ''('') (\<lambda>c.
     if c \<noteq> None then
       pbind (consume ''{'') (\<lambda>c.
       if c \<noteq> None then stmt_expr n None
       else
         pbind (expr n) (\<lambda>node.
         pbind (expect '')'') (\<lambda>_.
           preturn node)))
     else
     pbind (consume ''sizeof'') (\<lambda>tok.
     if tok \<noteq> None then
       pbind (unary n) (\<lambda>node.
       pbind (add_typeP node) (\<lambda>node.
         (case nd_ty node of
            None \<Rightarrow> pfail NullPointer
          | Some ty \<Rightarrow> preturn (new_num (scast (ty_size ty)) tok))))
     else
     pbind consume_ident (\<lambda>tok.
     (case tok of
        Some t \<Rightarrow>
          pbind (consume ''('') (\<lambda>c.
          if c \<noteq> None then
            pbind (func_args n) (\<lambda>args.
              preturn (set_args args (set_funcname (tok_str t) (new_node ND_FUNCALL tok))))
          else
            pbind (pgets (\<lambda>st. find_var st t)) (\<lambda>var.
              (case var of
                 None \<Rightarrow> error_tok tok ''undefined variable''
               | Some v \<Rightarrow> preturn (new_var_node v tok))))
      | None \<Rightarrow>
          pbind (pgets cur_tok) (\<lambda>tok.
          if map_option tok_kind tok = Some TK_STR then
            pbind (pmodify advance) (\<lambda>_.
            pbind new_label (\<lambda>label.
            pbind (new_gvar label (array_of char_type (tok_cont_len (the tok)))) (\<lambda>var.
            pbind (pmodify (\<lambda>st. st\<lparr>vars := (vars st)[var := (vars st ! var)
                      \<lparr>var_contents := Some (tok_contents (the tok)),
                       var_cont_len := tok_cont_len (the tok)\<rparr>]\<rparr>)) (\<lambda>_.
              preturn (new_var_node var tok)))))
          else if map_option tok_kind tok \<noteq> Some TK_NUM then error_tok tok ''expected expression''
          else
            pbind expect_number (\<lambda>val.
              preturn (new_num val tok)))))))"

section \<open>Functions and the program\<close>

definition read_func_param :: "nat \<Rightarrow> VarRef parser" where
  "read_func_param n =
     pbind (basetype n) (\<lambda>ty.
     pbind expect_ident (\<lambda>name.
     pbind (read_type_suffix ty) (\<lambda>ty.
       new_lvar name ty)))"

fun read_func_params_loop :: "nat \<Rightarrow> VarRef list parser" where
  "read_func_params_loop 0 = pfail OutOfFuel"
| "read_func_params_loop (Suc n) =
     pbind (consume '')'') (\<lambda>c.
       if c \<noteq> None then preturn []
       else pbind (expect '','') (\<lambda>_.
            pbind (read_func_param n) (\<lambda>p.
            pbind (read_func_params_loop n) (\<lambda>ps.
              preturn (p # ps)))))"

definition read_func_params :: "nat \<Rightarrow> VarRef list parser" where
  "read_func_params n =
     pbind (consume '')'') (\<lambda>c.
       if c \<noteq> None then preturn []
       else pbind (read_func_param n) (\<lambda>head.
            pbind (read_func_params_loop n) (\<lambda>rest.
              preturn (head # rest))))"

fun function_loop :: "nat \<Rightarrow> Node list parser" where
  "function_loop 0 = pfail OutOfFuel"
| "function_loop (Suc n) =
     pbind (consume ''}'') (\<lambda>c.
       if c \<noteq> None then preturn []
       else pbind (stmt n) (\<lambda>s.
            pbind (function_loop n) (\<lambda>ss.
              preturn (s # ss))))"

definition functionP :: "nat \<Rightarrow> Function parser" where
  "functionP n =
     pbind (pmodify (\<lambda>st. st\<lparr>locals := []\<rparr>)) (\<lambda>_.
     pbind (basetype n) (\<lambda>_.
     pbind expect_ident (\<lambda>name.
     pbind (expect ''('') (\<lambda>_.
     pbind (pgets scope) (\<lambda>sc.
     pbind (read_func_params n) (\<lambda>params.
     pbind (expect ''{'') (\<lambda>_.
     pbind (function_loop n) (\<lambda>body.
     pbind (pmodify (\<lambda>st. st\<lparr>scope := sc\<rparr>)) (\<lambda>_.
     pbind (pgets locals) (\<lambda>ls.
       preturn \<lparr>fn_name = name, fn_params = params, fn_node = body, fn_locals = ls\<rparr>))))))))))"

definition global_var :: "nat \<Rightarrow> unit parser" where
  "global_var n =
     pbind (basetype n) (\<lambda>ty.
     pbind expect_ident (\<lambda>name.
     pbind (read_type_suffix ty) (\<lambda>ty.
     pbind (expect '';'') (\<lambda>_.
     pbind (new_gvar name ty) (\<lambda>_.
       preturn ())))))"

text \<open>
  \<^verbatim>\<open>is_function\<close> saves the token cursor, reads a base type, an identifier and a
  \<^verbatim>\<open>(\<close>, and puts the cursor back; \<^verbatim>\<open>&&\<close> does not call \<^verbatim>\<open>consume\<close> when no
  identifier was found.
\<close>

definition is_function :: "nat \<Rightarrow> bool parser" where
  "is_function n =
     pbind (pgets token) (\<lambda>tok.
     pbind (basetype n) (\<lambda>_.
     pbind consume_ident (\<lambda>i.
     pbind (if i \<noteq> None then consume ''('' else preturn None) (\<lambda>p.
     pbind (pmodify (\<lambda>st. st\<lparr>token := tok\<rparr>)) (\<lambda>_.
       preturn (i \<noteq> None \<and> p \<noteq> None))))))"

fun program_loop :: "nat \<Rightarrow> Function list parser" where
  "program_loop 0 = pfail OutOfFuel"
| "program_loop (Suc n) =
     pbind (pgets at_eof) (\<lambda>eof.
       if eof then preturn []
       else pbind (is_function n) (\<lambda>isfunc.
            if isfunc then
              pbind (functionP n) (\<lambda>fn.
              pbind (program_loop n) (\<lambda>fns.
                preturn (fn # fns)))
            else
              pbind (global_var n) (\<lambda>_. program_loop n)))"

definition program :: "nat \<Rightarrow> Program parser" where
  "program n =
     pbind (pmodify (\<lambda>st. st\<lparr>globals := []\<rparr>)) (\<lambda>_.
     pbind (program_loop n) (\<lambda>fns.
     pbind (pgets globals) (\<lambda>gs.
       preturn \<lparr>prog_globals = gs, prog_fns = fns\<rparr>)))"

section \<open>Well-formed types and example inputs\<close>

text \<open>
  The type model gives a base type to pointers and arrays and to no other type; the
  constructors above and \<open>struct_decl\<close> build only such types.
\<close>

definition wf_type :: "Type \<Rightarrow> bool" where
  "wf_type ty = ((ty_base ty \<noteq> None) = (ty_kind ty = TY_PTR \<or> ty_kind ty = TY_ARRAY))"

definition has_base :: "Type \<Rightarrow> bool" where
  "has_base ty = (ty_base ty \<noteq> None)"

text \<open>Tokens as the tokenizer would deliver them, and the state before parsing.\<close>

definition tk :: "string \<Rightarrow> Token" where
  "tk s = \<lparr>tok_kind = TK_RESERVED, tok_val = 0, tok_str = s, tok_contents = [], tok_cont_len = 0\<rparr>"

definition tk_ident :: "string \<Rightarrow> Token" where
  "tk_ident s = \<lparr>tok_kind = TK_IDENT, tok_val = 0, tok_str = s, tok_contents = [], tok_cont_len = 0\<rparr>"

definition tk_num :: "64 word \<Rightarrow> Token" where
  "tk_num v = \<lparr>tok_kind = TK_NUM, tok_val = v, tok_str = [], tok_contents = [], tok_cont_len = 0\<rparr>"

definition tk_eof :: "Token" where
  "tk_eof = \<lparr>tok_kind = TK_EOF, tok_val = 0, tok_str = [], tok_contents = [], tok_cont_len = 0\<rparr>"

definition init_state :: "Token list \<Rightarrow> pstate" where
  "init_state ts = \<lparr>token = ts, locals = [], globals = [], scope = [], vars = [], label_cnt = 0\<rparr>"

text \<open>A state with two locals in scope: \<^verbatim>\<open>int *p\<close> and \<^verbatim>\<open>char a[4]\<close>.\<close>

definition ex_vars :: "Var list" where
  "ex_vars = [\<lparr>var_name = ''p'', var_ty = pointer_to int_type, var_is_local = True,
                var_contents = None, var_cont_len = 0\<rparr>,
              \<lparr>var_name = ''a'', var_ty = array_of char_type 4, var_is_local = True,
                var_contents = None, var_cont_len = 0\<rparr>]"

definition ex_state :: pstate where
  "ex_state = \<lparr>token = [tk_eof], locals = [1, 0], globals = [], scope = [1, 0],
                vars = ex_vars, label_cnt = 0\<rparr>"

text \<open>
  \<open>suffix_toks ts ns rest\<close>: the tokens \<open>ts\<close> are the array suffixes \<^verbatim>\<open>[n1][n2]...\<close>
  with the lengths \<open>ns\<close>, followed by \<open>rest\<close>.
\<close>

definition is_punct :: "string \<Rightarrow> Token \<Rightarrow> bool" where
  "is_punct s t = (tok_kind t = TK_RESERVED \<and> tok_str t = s)"

fun suffix_toks :: "Token list \<Rightarrow> 64 word list \<Rightarrow> Token list \<Rightarrow> bool" where
  "suffix_toks ts [] rest = (ts = rest)"
| "suffix_toks (a # b # c # ts) (n # ns) rest =
     (is_punct ''['' a \<and> tok_kind b = TK_NUM \<and> tok_val b = n \<and> is_punct '']'' c \<and>
      suffix_toks ts ns rest)"
| "suffix_toks ts (n # ns) rest = False"

section \<open>Frame conditions\<close>

text \<open>
  \<open>pres R m\<close>: whenever the parser \<open>m\<close> returns, the states before and after are related
  by \<open>R\<close>.
\<close>

definition pres :: "(pstate \<Rightarrow> pstate \<Rightarrow> bool) \<Rightarrow> 'a parser \<Rightarrow> bool" where
  "pres R m = (\<forall>st x st'. m st = Inr (x, st') \<longrightarrow> R st st')"

text \<open>A relation that no move of the token cursor breaks.\<close>

definition frame_ok :: "(pstate \<Rightarrow> pstate \<Rightarrow> bool) \<Rightarrow> bool" where
  "frame_ok R = (reflp R \<and> transp R \<and> (\<forall>st ts. R st (st\<lparr>token := ts\<rparr>)))"

text \<open>Only the token cursor differs.\<close>

definition only_token :: "pstate \<Rightarrow> pstate \<Rightarrow> bool" where
  "only_token st st' = (locals st' = locals st \<and> globals st' = globals st \<and>
     scope st' = scope st \<and> vars st' = vars st \<and> label_cnt st' = label_cnt st)"

text \<open>
  \<open>ext st st'\<close>: the heap of \<open>st'\<close> extends that of \<open>st\<close> (no \<^verbatim>\<open>Var\<close> allocated before
  has changed), and the globals list of \<open>st'\<close> is that of \<open>st\<close> with the globals allocated
  in between in front of it, the latest first.
\<close>

definition ext :: "pstate \<Rightarrow> pstate \<Rightarrow> bool" where
  "ext st st' =
     ((\<exists>new. vars st' = vars st @ new) \<and>
      (\<exists>g. globals st' = g @ globals st \<and> sorted_wrt (>) g \<and>
           (\<forall>x \<in> set g. length (vars st) \<le> x \<and> x < length (vars st'))))"

definition pres_all :: "(pstate \<Rightarrow> pstate \<Rightarrow> bool) \<Rightarrow> nat \<Rightarrow> bool" where
  "pres_all R n =
     (pres R (stmt n) \<and> pres R (stmt2 n) \<and> pres R (stmt2_loop n) \<and>
      pres R (declarationP n) \<and> pres R (read_expr_stmt n) \<and> pres R (expr n) \<and>
      pres R (assign n) \<and> pres R (equality n) \<and> (\<forall>node. pres R (equality_loop n node)) \<and>
      pres R (relational n) \<and> (\<forall>node. pres R (relational_loop n node)) \<and>
      pres R (add n) \<and> (\<forall>node. pres R (add_loop n node)) \<and>
      pres R (mul n) \<and> (\<forall>node. pres R (mul_loop n node)) \<and>
      pres R (unary n) \<and> pres R (postfix n) \<and> (\<forall>node. pres R (postfix_loop n node)) \<and>
      (\<forall>tok. pres R (stmt_expr n tok)) \<and> pres R (stmt_expr_loop n) \<and>
      pres R (func_args n) \<and> pres R (func_args_loop n) \<and> pres R (primary n))"

text \<open>Every variable on the scope chain is an allocated one.\<close>

definition wf_scope :: "pstate \<Rightarrow> bool" where
  "wf_scope st = (\<forall>v \<in> set (scope st). v < length (vars st))"

text \<open>\<open>post Q m\<close>: every value the parser \<open>m\<close> returns satisfies \<open>Q\<close>.\<close>

definition post :: "('a \<Rightarrow> bool) \<Rightarrow> 'a parser \<Rightarrow> bool" where
  "post Q m = (\<forall>st x st'. m st = Inr (x, st') \<longrightarrow> Q x)"

text \<open>An expression statement holds its expression in \<^verbatim>\<open>lhs\<close>.\<close>

definition expr_stmt_ok :: "Node \<Rightarrow> bool" where
  "expr_stmt_ok node = (nd_kind node = ND_EXPR_STMT \<longrightarrow> nd_lhs node \<noteq> None)"

text \<open>
  A function body in which \<^verbatim>\<open>int x\<close> is declared, at the tokens
  \<^verbatim>\<open>{ char x; x; } x;\<close>; the state after the inner declaration; the block that
  \<open>stmt2\<close> returns and the state after it.
\<close>

definition ex_var_x :: "Type \<Rightarrow> Var" where
  "ex_var_x ty = \<lparr>var_name = ''x'', var_ty = ty, var_is_local = True,
                  var_contents = None, var_cont_len = 0\<rparr>"

definition ex_block_state :: pstate where
  "ex_block_state =
     \<lparr>token = [tk ''{'', tk ''char'', tk_ident ''x'', tk '';'', tk_ident ''x'', tk '';'', tk ''}'',
               tk_ident ''x'', tk '';'', tk_eof],
      locals = [0], globals = [], scope = [0], vars = [ex_var_x int_type], label_cnt = 0\<rparr>"

definition ex_block_inner :: pstate where
  "ex_block_inner =
     \<lparr>token = [tk ''{'', tk ''char'', tk_ident ''x'', tk '';'', tk_ident ''x'', tk '';'', tk ''}'',
               tk_ident ''x'', tk '';'', tk_eof],
      locals = [1, 0], globals = [], scope = [1, 0],
      vars = [ex_var_x int_type, ex_var_x char_type], label_cnt = 0\<rparr>"

definition ex_block_node :: Node where
  "ex_block_node =
     set_body [new_node ND_NULL (Some (tk ''char'')),
               new_unary ND_EXPR_STMT
                 (set_ty (Some char_type) (new_var_node 1 (Some (tk_ident ''x''))))
                 (Some (tk_ident ''x''))]
       (new_node ND_BLOCK (Some (tk ''{'')))"

definition ex_block_after :: pstate where
  "ex_block_after =
     \<lparr>token = [tk_ident ''x'', tk '';'', tk_eof],
      locals = [1, 0], globals = [], scope = [0],
      vars = [ex_var_x int_type, ex_var_x char_type], label_cnt = 0\<rparr>"




text \<open>
  The tokens of \<^verbatim>\<open>int main() { int x; ({ char x; x; }); return x; }\<close> and of
  \<^verbatim>\<open>int main() { int x; { char x; x; } return x; }\<close>, and the variable that the
  last statement of the first function of a parsed program refers to.
\<close>

definition ex_stmt_expr_scope_tokens :: "Token list" where
  "ex_stmt_expr_scope_tokens =
     [tk ''int'', tk_ident ''main'', tk ''('', tk '')'', tk ''{'',
      tk ''int'', tk_ident ''x'', tk '';'',
      tk ''('', tk ''{'', tk ''char'', tk_ident ''x'', tk '';'', tk_ident ''x'', tk '';'',
      tk ''}'', tk '')'', tk '';'',
      tk ''return'', tk_ident ''x'', tk '';'', tk ''}'', tk_eof]"

definition ex_block_scope_tokens :: "Token list" where
  "ex_block_scope_tokens =
     [tk ''int'', tk_ident ''main'', tk ''('', tk '')'', tk ''{'',
      tk ''int'', tk_ident ''x'', tk '';'',
      tk ''{'', tk ''char'', tk_ident ''x'', tk '';'', tk_ident ''x'', tk '';'', tk ''}'',
      tk ''return'', tk_ident ''x'', tk '';'', tk ''}'', tk_eof]"

definition returned_var :: "Program \<times> pstate \<Rightarrow> (NodeKind \<times> VarRef option \<times> Type option) option" where
  "returned_var ps =
     map_option (\<lambda>e. (nd_kind e, nd_var e, nd_ty e))
       (nd_lhs (last (fn_node (hd (prog_fns (fst ps))))))"

section \<open>The arithmetic tie-break table\<close>

lemma wf_type_constructors:
  "wf_type char_type" "wf_type int_type" "wf_type (pointer_to b)" "wf_type (array_of b n)"
  by (simp_all add: wf_type_def char_type_def int_type_def pointer_to_def array_of_def)

lemma nd_ty_set_ty: "nd_ty (set_ty t n) = t"
  by (cases n) (simp add: set_ty_def)

lemma ex_add_type_num: "add_type vs (new_num v t) = Inr (set_ty (Some int_type) (new_num v t))"
  by (simp add: new_num_def new_node_def set_val_def set_ty_def ebind_def node_type_def)

lemma ex_add_type_var0:
  "add_type ex_vars (new_var_node 0 t) =
     Inr (set_ty (Some (pointer_to int_type)) (new_var_node 0 t))"
  by (simp add: new_var_node_def new_node_def set_var_def set_ty_def ebind_def node_type_def
      ex_vars_def)

lemma ex_add_type_var1:
  "add_type ex_vars (new_var_node 1 t) =
     Inr (set_ty (Some (array_of char_type 4)) (new_var_node 1 t))"
  by (simp add: new_var_node_def new_node_def set_var_def set_ty_def ebind_def node_type_def
      ex_vars_def)

lemma ex_vars_state: "vars ex_state = ex_vars"
  by (simp add: ex_state_def)

lemma new_binary_fields:
  "nd_kind (new_binary kind a b tok) = kind" "nd_lhs (new_binary kind a b tok) = Some a"
  "nd_rhs (new_binary kind a b tok) = Some b" "nd_tok (new_binary kind a b tok) = tok"
  by (simp_all add: new_binary_def new_node_def set_lhs_def set_rhs_def)

text \<open>
  Claim C1. Let both operands of a binary \<open>+\<close> or \<open>-\<close> be type-annotated, to \<open>l\<close> of
  type \<open>lt\<close> and \<open>r\<close> of type \<open>rt\<close>, both types of the type model. Then \<open>new_add\<close> and
  \<open>new_sub\<close> follow the table: integer and integer give \<open>ND_ADD\<close> and \<open>ND_SUB\<close>; a
  base-typed left operand and an integer give \<open>ND_PTR_ADD\<close> and \<open>ND_PTR_SUB\<close>; an integer
  and a base-typed right operand give \<open>ND_PTR_ADD\<close> with the operands swapped, and for
  \<open>-\<close> the error "invalid operands" at the operator's token; two base-typed operands
  give that error for \<open>+\<close> and \<open>ND_PTR_DIFF\<close> for \<open>-\<close>. An operand that is neither
  (a struct) gives the error for both. The node that \<open>new_binary\<close> builds has the given
  kind, the first operand as \<^verbatim>\<open>lhs\<close>, the second as \<^verbatim>\<open>rhs\<close>, and the operator's token.
\<close>

theorem new_add_new_sub_table:
  assumes l: "add_type (vars st) lhs = Inr l" and r: "add_type (vars st) rhs = Inr r"
    and lt: "nd_ty l = Some lt" and rt: "nd_ty r = Some rt"
    and wf: "wf_type lt" "wf_type rt"
  shows "(is_integer lt \<and> is_integer rt \<longrightarrow>
            new_add lhs rhs tok st = Inr (new_binary ND_ADD l r tok, st) \<and>
            new_sub lhs rhs tok st = Inr (new_binary ND_SUB l r tok, st)) \<and>
         (has_base lt \<and> is_integer rt \<longrightarrow>
            new_add lhs rhs tok st = Inr (new_binary ND_PTR_ADD l r tok, st) \<and>
            new_sub lhs rhs tok st = Inr (new_binary ND_PTR_SUB l r tok, st)) \<and>
         (is_integer lt \<and> has_base rt \<longrightarrow>
            new_add lhs rhs tok st = Inr (new_binary ND_PTR_ADD r l tok, st) \<and>
            new_sub lhs rhs tok st = Inl (ErrorTok tok ''invalid operands'')) \<and>
         (has_base lt \<and> has_base rt \<longrightarrow>
            new_add lhs rhs tok st = Inl (ErrorTok tok ''invalid operands'') \<and>
            new_sub lhs rhs tok st = Inr (new_binary ND_PTR_DIFF l r tok, st)) \<and>
         ((\<not> is_integer lt \<and> \<not> has_base lt) \<or> (\<not> is_integer rt \<and> \<not> has_base rt) \<longrightarrow>
            new_add lhs rhs tok st = Inl (ErrorTok tok ''invalid operands'') \<and>
            new_sub lhs rhs tok st = Inl (ErrorTok tok ''invalid operands'')) \<and>
         (\<forall>kind a b. nd_kind (new_binary kind a b tok) = kind \<and>
            nd_lhs (new_binary kind a b tok) = Some a \<and>
            nd_rhs (new_binary kind a b tok) = Some b \<and>
            nd_tok (new_binary kind a b tok) = tok)"
  using assms
  by (auto simp: new_add_def new_sub_def pbind_def add_typeP_def preturn_def error_tok_def
      pfail_def wf_type_def has_base_def is_integer_def new_binary_fields)

theorem new_add_new_sub_table_witness:
  "map_sum id (\<lambda>(n, s). (nd_kind n, nd_lhs n, nd_rhs n, nd_tok n, s))
     (new_add (new_num 1 None) (new_num 2 None) (Some (tk ''+'')) ex_state) =
     Inr (ND_ADD, Some (set_ty (Some int_type) (new_num 1 None)),
          Some (set_ty (Some int_type) (new_num 2 None)), Some (tk ''+''), ex_state) \<and>
   map_sum id (\<lambda>(n, s). (nd_kind n, nd_lhs n, nd_rhs n, nd_tok n, s))
     (new_sub (new_var_node 0 None) (new_num 2 None) (Some (tk ''-'')) ex_state) =
     Inr (ND_PTR_SUB, Some (set_ty (Some (pointer_to int_type)) (new_var_node 0 None)),
          Some (set_ty (Some int_type) (new_num 2 None)), Some (tk ''-''), ex_state) \<and>
   map_sum id (\<lambda>(n, s). (nd_kind n, nd_lhs n, nd_rhs n, nd_tok n, s))
     (new_add (new_num 1 None) (new_var_node 1 None) (Some (tk ''+'')) ex_state) =
     Inr (ND_PTR_ADD, Some (set_ty (Some (array_of char_type 4)) (new_var_node 1 None)),
          Some (set_ty (Some int_type) (new_num 1 None)), Some (tk ''+''), ex_state) \<and>
   new_sub (new_num 1 None) (new_var_node 1 None) (Some (tk ''-'')) ex_state =
     Inl (ErrorTok (Some (tk ''-'')) ''invalid operands'') \<and>
   new_add (new_var_node 0 None) (new_var_node 1 None) (Some (tk ''+'')) ex_state =
     Inl (ErrorTok (Some (tk ''+'')) ''invalid operands'') \<and>
   map_sum id (\<lambda>(n, s). (nd_kind n, nd_lhs n, nd_rhs n, nd_tok n, s))
     (new_sub (new_var_node 0 None) (new_var_node 1 None) (Some (tk ''-'')) ex_state) =
     Inr (ND_PTR_DIFF, Some (set_ty (Some (pointer_to int_type)) (new_var_node 0 None)),
          Some (set_ty (Some (array_of char_type 4)) (new_var_node 1 None)), Some (tk ''-''),
          ex_state)"
proof -
  let ?n1 = "new_num 1 None" and ?n2 = "new_num 2 None"
  let ?p = "new_var_node 0 None" and ?a = "new_var_node 1 None"
  have n1: "add_type (vars ex_state) ?n1 = Inr (set_ty (Some int_type) ?n1)"
    and n2: "add_type (vars ex_state) ?n2 = Inr (set_ty (Some int_type) ?n2)"
    by (rule ex_add_type_num)+
  have p: "add_type (vars ex_state) ?p = Inr (set_ty (Some (pointer_to int_type)) ?p)"
    unfolding ex_vars_state by (rule ex_add_type_var0)
  have a: "add_type (vars ex_state) ?a = Inr (set_ty (Some (array_of char_type 4)) ?a)"
    unfolding ex_vars_state by (rule ex_add_type_var1)
  have int: "is_integer int_type" "\<not> has_base int_type"
    by (simp_all add: is_integer_def has_base_def int_type_def)
  have ptr: "\<not> is_integer (pointer_to int_type)" "has_base (pointer_to int_type)"
    by (simp_all add: is_integer_def has_base_def pointer_to_def)
  have arr: "\<not> is_integer (array_of char_type 4)" "has_base (array_of char_type 4)"
    by (simp_all add: is_integer_def has_base_def array_of_def)
  note wfs = wf_type_constructors
  show ?thesis
    using
      new_add_new_sub_table [OF n1 n2 nd_ty_set_ty nd_ty_set_ty wfs(2) wfs(2), of "Some (tk ''+'')"]
      new_add_new_sub_table [OF p n2 nd_ty_set_ty nd_ty_set_ty wfs(3) wfs(2), of "Some (tk ''-'')"]
      new_add_new_sub_table [OF n1 a nd_ty_set_ty nd_ty_set_ty wfs(2) wfs(4), of "Some (tk ''+'')"]
      new_add_new_sub_table [OF n1 a nd_ty_set_ty nd_ty_set_ty wfs(2) wfs(4), of "Some (tk ''-'')"]
      new_add_new_sub_table [OF p a nd_ty_set_ty nd_ty_set_ty wfs(3) wfs(4), of "Some (tk ''+'')"]
      new_add_new_sub_table [OF p a nd_ty_set_ty nd_ty_set_ty wfs(3) wfs(4), of "Some (tk ''-'')"]
    by (simp add: int ptr arr)
qed

section \<open>Array suffixes\<close>

lemma suffix_toks_Cons:
  "suffix_toks ts (n # ns) rest \<Longrightarrow>
     \<exists>a b c ts'. ts = a # b # c # ts' \<and> is_punct ''['' a \<and> tok_kind b = TK_NUM \<and>
        tok_val b = n \<and> is_punct '']'' c \<and> suffix_toks ts' ns rest"
  by (cases "(ts, n # ns, rest)" rule: suffix_toks.cases) auto

lemma read_type_suffix_step:
  assumes "token st = a # b # c # ts" "is_punct ''['' a" "tok_kind b = TK_NUM"
    "is_punct '']'' c"
  shows "read_type_suffix base st =
     (case read_type_suffix base (st\<lparr>token := ts\<rparr>) of
        Inl e \<Rightarrow> Inl e
      | Inr (base', st4) \<Rightarrow> Inr (array_of base' (ucast (tok_val b)), st4))"
  using assms
  by (subst read_type_suffix.simps)
     (simp add: consume_def peek_def expect_number_def expect_def advance_def is_punct_def)

lemma read_type_suffix_stop:
  assumes "peek ''['' st = None"
  shows "read_type_suffix base st = Inr (base, st)"
  using assms by (subst read_type_suffix.simps) (simp add: consume_def)

lemma read_type_suffix_foldr:
  "suffix_toks (token st) ns rest \<Longrightarrow> peek ''['' (st\<lparr>token := rest\<rparr>) = None \<Longrightarrow>
     read_type_suffix base st =
       Inr (foldr (\<lambda>n ty. array_of ty (ucast n)) ns base, st\<lparr>token := rest\<rparr>)"
proof (induction ns arbitrary: st)
  case Nil
  then have "st\<lparr>token := rest\<rparr> = st" by simp
  with Nil show ?case by (simp add: read_type_suffix_stop)
next
  case (Cons n ns)
  from suffix_toks_Cons [OF Cons.prems(1)] obtain a b c ts where
    ts: "token st = a # b # c # ts" "is_punct ''['' a" "tok_kind b = TK_NUM" "tok_val b = n"
      "is_punct '']'' c" "suffix_toks ts ns rest"
    by blast
  have "read_type_suffix base (st\<lparr>token := ts\<rparr>) =
      Inr (foldr (\<lambda>n ty. array_of ty (ucast n)) ns base, st\<lparr>token := ts\<rparr>\<lparr>token := rest\<rparr>)"
    using ts(6) Cons.prems(2) by (intro Cons.IH) simp_all
  then show ?case
    using ts by (simp add: read_type_suffix_step [OF ts(1,2,3,5)])
qed

text \<open>
  Claim C2. When the tokens at the cursor are the chained array suffixes with the
  lengths \<open>n1, ..., nk\<close> and the token after them is not \<^verbatim>\<open>[\<close>, \<open>read_type_suffix\<close>
  on a base type returns \<open>array_of (... (array_of base nk) ...) n1\<close>, with the cursor after
  the suffixes: the last suffix wraps the base first and the first suffix is outermost.
  For \<^verbatim>\<open>[2][3]\<close> on \<^verbatim>\<open>int\<close> that is the array of 2 arrays of 3 \<^verbatim>\<open>int\<close>.
\<close>

theorem read_type_suffix_right_to_left:
  assumes "suffix_toks (token st) ns rest" and "peek ''['' (st\<lparr>token := rest\<rparr>) = None"
  shows "read_type_suffix base st =
           Inr (foldr (\<lambda>n ty. array_of ty (ucast n)) ns base, st\<lparr>token := rest\<rparr>)"
  using assms by (rule read_type_suffix_foldr)

theorem read_type_suffix_right_to_left_witness:
  "read_type_suffix int_type
     (init_state [tk ''['', tk_num 2, tk '']'', tk ''['', tk_num 3, tk '']'', tk '';'', tk_eof]) =
   Inr (array_of (array_of int_type 3) 2, init_state [tk '';'', tk_eof]) \<and>
   array_of (array_of int_type 3) 2 =
     Type TY_ARRAY 48 (Some (Type TY_ARRAY 24 (Some (Type TY_INT 8 None 0 [])) 3 [])) 2 [] \<and>
   array_of (array_of int_type 3) 2 \<noteq> array_of (array_of int_type 2) 3"
proof -
  let ?st = "init_state [tk ''['', tk_num 2, tk '']'', tk ''['', tk_num 3, tk '']'', tk '';'', tk_eof]"
  have a: "suffix_toks (token ?st) [2, 3] [tk '';'', tk_eof]"
    by (simp add: init_state_def is_punct_def tk_def tk_num_def)
  have b: "peek ''['' (?st\<lparr>token := [tk '';'', tk_eof]\<rparr>) = None"
    by (simp add: peek_def tk_def)
  show ?thesis
    using read_type_suffix_right_to_left [OF a b, of int_type]
    by (simp add: init_state_def array_of_def int_type_def)
qed

section \<open>Running a parser step by step\<close>

lemma pbind_Inr:
  "pbind m f st = Inr (y, st'') \<longleftrightarrow> (\<exists>x st'. m st = Inr (x, st') \<and> f x st' = Inr (y, st''))"
  by (auto simp: pbind_def split: sum.splits)

lemma pbind_Inl:
  "pbind m f st = Inl e \<longleftrightarrow> m st = Inl e \<or> (\<exists>x st'. m st = Inr (x, st') \<and> f x st' = Inl e)"
  by (auto simp: pbind_def split: sum.splits)

lemma pbind_step: "m st = Inr (x, st') \<Longrightarrow> pbind m f st = f x st'"
  by (simp add: pbind_def)

lemma preturn_Inr: "preturn x st = Inr (y, st') \<longleftrightarrow> y = x \<and> st' = st"
  by (auto simp: preturn_def)

lemma pfail_Inr: "pfail e st \<noteq> Inr z"
  by (simp add: pfail_def)

lemma error_tok_Inr: "error_tok tok msg st \<noteq> Inr z"
  by (simp add: error_tok_def pfail_def)

lemma pgets_Inr: "pgets f st = Inr (y, st') \<longleftrightarrow> y = f st \<and> st' = st"
  by (auto simp: pgets_def)

lemma pmodify_Inr: "pmodify f st = Inr (y, st') \<longleftrightarrow> st' = f st"
  by (auto simp: pmodify_def)

section \<open>Struct layout\<close>

lemma assign_offsets_length: "assign_offsets off ms = (ms', fin) \<Longrightarrow> length ms' = length ms"
  by (induction ms arbitrary: off ms') (auto split: prod.splits)

lemma assign_offsets_decls:
  "assign_offsets off ms = (ms', fin) \<Longrightarrow>
     map mem_name ms' = map mem_name ms \<and> map mem_ty ms' = map mem_ty ms"
  by (induction ms arbitrary: off ms') (auto simp: set_offset_def split: prod.splits)

lemma assign_offsets_hd:
  "assign_offsets off ms = (ms', fin) \<Longrightarrow> ms' \<noteq> [] \<Longrightarrow> mem_offset (hd ms') = off"
  by (cases ms) (auto simp: set_offset_def split: prod.splits)

lemma assign_offsets_next:
  "assign_offsets off ms = (ms', fin) \<Longrightarrow> Suc i < length ms' \<Longrightarrow>
     mem_offset (ms' ! Suc i) = mem_offset (ms' ! i) + ty_size (mem_ty (ms' ! i))"
proof (induction ms arbitrary: off ms' i)
  case Nil
  then show ?case by simp
next
  case (Cons m ms)
  obtain r where r: "assign_offsets (off + ty_size (mem_ty m)) ms = (r, fin)"
    and ms': "ms' = set_offset off m # r"
    using Cons.prems(1) by (auto split: prod.splits)
  show ?case
  proof (cases i)
    case 0
    with Cons.prems(2) ms' have "r \<noteq> []" by auto
    from assign_offsets_hd [OF r this] have "mem_offset (hd r) = off + ty_size (mem_ty m)" .
    with \<open>r \<noteq> []\<close> 0 ms' show ?thesis
      by (cases r) (simp_all add: set_offset_def)
  next
    case (Suc j)
    with Cons.prems(2) ms' have "Suc j < length r" by simp
    from Cons.IH [OF r this] Suc ms' show ?thesis by simp
  qed
qed

lemma assign_offsets_final:
  "assign_offsets off ms = (ms', fin) \<Longrightarrow>
     fin = (if ms' = [] then off else mem_offset (last ms') + ty_size (mem_ty (last ms')))"
proof (induction ms arbitrary: off ms')
  case Nil
  then show ?case by simp
next
  case (Cons m ms)
  obtain r where r: "assign_offsets (off + ty_size (mem_ty m)) ms = (r, fin)"
    and ms': "ms' = set_offset off m # r"
    using Cons.prems(1) by (auto split: prod.splits)
  from Cons.IH [OF r] ms' show ?case
    by (simp add: set_offset_def)
qed

lemma struct_decl_Inr:
  assumes "struct_decl n st = Inr (ty, st')"
  shows "\<exists>k st1 st2 decls. n = Suc k \<and> expect ''struct'' st = Inr ((), st1) \<and>
           expect ''{'' st1 = Inr ((), st2) \<and> struct_decl_loop k st2 = Inr (decls, st') \<and>
           ty = Type TY_STRUCT (snd (assign_offsets 0 decls)) None 0 (fst (assign_offsets 0 decls))"
proof (cases n)
  case 0
  with assms show ?thesis by (simp add: pfail_def)
next
  case (Suc k)
  with assms show ?thesis
    by (auto simp: pbind_Inr preturn_Inr case_prod_beta)
qed

lemma struct_decl_wf_type: "struct_decl n st = Inr (ty, st') \<Longrightarrow> wf_type ty"
  by (drule struct_decl_Inr) (auto simp: wf_type_def)

text \<open>
  Claim C3. A struct type that \<open>struct_decl\<close> returns holds the parsed member
  declarations in their order; its first member has offset 0, each later member's offset
  is the offset of the member before it plus that member's type size, and the struct's
  size is the last member's offset plus its size (0 for no members). The sums are those of
  C's \<^verbatim>\<open>int\<close>; there is no padding.
\<close>

theorem struct_decl_offsets:
  assumes "struct_decl n st = Inr (ty, st')"
  shows "ty_kind ty = TY_STRUCT \<and>
         (\<exists>st2 decls. struct_decl_loop (n - 1) st2 = Inr (decls, st') \<and>
            map mem_name (ty_members ty) = map mem_name decls \<and>
            map mem_ty (ty_members ty) = map mem_ty decls) \<and>
         (ty_members ty \<noteq> [] \<longrightarrow> mem_offset (hd (ty_members ty)) = 0) \<and>
         (\<forall>i. Suc i < length (ty_members ty) \<longrightarrow>
            mem_offset (ty_members ty ! Suc i) =
              mem_offset (ty_members ty ! i) + ty_size (mem_ty (ty_members ty ! i))) \<and>
         ty_size ty =
           (if ty_members ty = [] then 0
            else mem_offset (last (ty_members ty)) + ty_size (mem_ty (last (ty_members ty))))"
proof -
  from struct_decl_Inr [OF assms] obtain k st1 st2 decls where
    n: "n = Suc k" and loop: "struct_decl_loop k st2 = Inr (decls, st')"
    and ty: "ty = Type TY_STRUCT (snd (assign_offsets 0 decls)) None 0 (fst (assign_offsets 0 decls))"
    by blast
  obtain ms fin where ao: "assign_offsets 0 decls = (ms, fin)"
    by (cases "assign_offsets 0 decls")
  have mem: "ty_members ty = ms" and sz: "ty_size ty = fin" and kind: "ty_kind ty = TY_STRUCT"
    using ty ao by simp_all
  have "\<exists>st2 decls. struct_decl_loop (n - 1) st2 = Inr (decls, st') \<and>
            map mem_name (ty_members ty) = map mem_name decls \<and>
            map mem_ty (ty_members ty) = map mem_ty decls"
    using loop n assign_offsets_decls [OF ao] mem by auto
  moreover have "ty_members ty \<noteq> [] \<longrightarrow> mem_offset (hd (ty_members ty)) = 0"
    using assign_offsets_hd [OF ao] mem by simp
  moreover have "\<forall>i. Suc i < length (ty_members ty) \<longrightarrow>
            mem_offset (ty_members ty ! Suc i) =
              mem_offset (ty_members ty ! i) + ty_size (mem_ty (ty_members ty ! i))"
    using assign_offsets_next [OF ao] mem by simp
  moreover have "ty_size ty =
           (if ty_members ty = [] then 0
            else mem_offset (last (ty_members ty)) + ty_size (mem_ty (last (ty_members ty))))"
    using assign_offsets_final [OF ao] mem sz by simp
  ultimately show ?thesis using kind by blast
qed

lemma ex_struct_decl:
  "struct_decl 10 (init_state [tk ''struct'', tk ''{'', tk ''int'', tk_ident ''a'', tk '';'',
      tk ''char'', tk_ident ''b'', tk '';'', tk ''int'', tk_ident ''c'', tk ''['', tk_num 2,
      tk '']'', tk '';'', tk ''}'', tk_eof]) =
   Inr (Type TY_STRUCT 25 None 0
          [Member int_type ''a'' 0, Member char_type ''b'' 8,
           Member (array_of int_type 2) ''c'' 9], init_state [tk_eof])"
  by code_simp

theorem struct_decl_offsets_witness:
  "\<exists>ty. struct_decl 10 (init_state [tk ''struct'', tk ''{'', tk ''int'', tk_ident ''a'', tk '';'',
      tk ''char'', tk_ident ''b'', tk '';'', tk ''int'', tk_ident ''c'', tk ''['', tk_num 2,
      tk '']'', tk '';'', tk ''}'', tk_eof]) = Inr (ty, init_state [tk_eof]) \<and>
     map mem_name (ty_members ty) = [''a'', ''b'', ''c''] \<and>
     map mem_offset (ty_members ty) = [0, 8, 9] \<and> ty_size ty = 25 \<and>
     mem_offset (ty_members ty ! 1) =
       mem_offset (ty_members ty ! 0) + ty_size (mem_ty (ty_members ty ! 0)) \<and>
     mem_offset (ty_members ty ! 2) =
       mem_offset (ty_members ty ! 1) + ty_size (mem_ty (ty_members ty ! 1)) \<and>
     ty_size ty = mem_offset (last (ty_members ty)) + ty_size (mem_ty (last (ty_members ty)))"
  using struct_decl_offsets [OF ex_struct_decl] ex_struct_decl
  by (simp add: int_type_def char_type_def array_of_def)

section \<open>Duplicate member names\<close>

lemma find_member_find: "find_member ms name = List.find (\<lambda>m. mem_name m = name) ms"
  by (induction ms) auto

text \<open>
  Claim C9, as stated, fails: \<^verbatim>\<open>struct { int a; int a; }\<close> is accepted, with two
  members named \<^verbatim>\<open>a\<close>.
\<close>

theorem struct_decl_duplicate_counterexample:
  "struct_decl 10 (init_state [tk ''struct'', tk ''{'', tk ''int'', tk_ident ''a'', tk '';'',
      tk ''int'', tk_ident ''a'', tk '';'', tk ''}'', tk_eof]) =
   Inr (Type TY_STRUCT 16 None 0 [Member int_type ''a'' 0, Member int_type ''a'' 8],
        init_state [tk_eof]) \<and>
   \<not> distinct (map mem_name [Member int_type ''a'' 0, Member int_type ''a'' 8])"
  by code_simp

text \<open>
  Claim C9, amended. \<open>struct_decl\<close> does not compare member names: once \<^verbatim>\<open>struct {\<close>
  is read and the member declarations up to \<^verbatim>\<open>}\<close> parse, it returns the struct type
  with exactly the declared names in their order, whether or not they are distinct; no
  duplicate-member error exists. \<open>find_member\<close> resolves a name to the first member that
  has it.
\<close>

theorem struct_decl_keeps_names:
  assumes "expect ''struct'' st = Inr ((), st1)" and "expect ''{'' st1 = Inr ((), st2)"
    and "struct_decl_loop n st2 = Inr (decls, st3)"
  shows "\<exists>ty. struct_decl (Suc n) st = Inr (ty, st3) \<and>
           map mem_name (ty_members ty) = map mem_name decls \<and>
           (\<forall>name. find_member (ty_members ty) name =
              List.find (\<lambda>m. mem_name m = name) (ty_members ty))"
proof -
  obtain ms fin where ao: "assign_offsets 0 decls = (ms, fin)"
    by (cases "assign_offsets 0 decls")
  have "struct_decl (Suc n) st = Inr (Type TY_STRUCT fin None 0 ms, st3)"
    using assms ao by (simp add: pbind_step preturn_def)
  then show ?thesis
    using assign_offsets_decls [OF ao] by (simp add: find_member_find)
qed

lemma ex_dup_expect1:
  "expect ''struct'' (init_state [tk ''struct'', tk ''{'', tk ''int'', tk_ident ''a'', tk '';'',
      tk ''int'', tk_ident ''a'', tk '';'', tk ''}'', tk_eof]) =
   Inr ((), init_state [tk ''{'', tk ''int'', tk_ident ''a'', tk '';'',
      tk ''int'', tk_ident ''a'', tk '';'', tk ''}'', tk_eof])"
  by code_simp

lemma ex_dup_expect2:
  "expect ''{'' (init_state [tk ''{'', tk ''int'', tk_ident ''a'', tk '';'',
      tk ''int'', tk_ident ''a'', tk '';'', tk ''}'', tk_eof]) =
   Inr ((), init_state [tk ''int'', tk_ident ''a'', tk '';'',
      tk ''int'', tk_ident ''a'', tk '';'', tk ''}'', tk_eof])"
  by code_simp

lemma ex_dup_loop:
  "struct_decl_loop 9 (init_state [tk ''int'', tk_ident ''a'', tk '';'',
      tk ''int'', tk_ident ''a'', tk '';'', tk ''}'', tk_eof]) =
   Inr ([Member int_type ''a'' 0, Member int_type ''a'' 0], init_state [tk_eof])"
  by code_simp

theorem struct_decl_keeps_names_witness:
  "\<exists>ty. struct_decl (Suc 9) (init_state [tk ''struct'', tk ''{'', tk ''int'', tk_ident ''a'',
      tk '';'', tk ''int'', tk_ident ''a'', tk '';'', tk ''}'', tk_eof]) = Inr (ty, init_state [tk_eof]) \<and>
     map mem_name (ty_members ty) = [''a'', ''a''] \<and>
     map_option mem_offset (find_member (ty_members ty) ''a'') =
       map_option mem_offset (List.find (\<lambda>m. mem_name m = ''a'') (ty_members ty))"
  using struct_decl_keeps_names [OF ex_dup_expect1 ex_dup_expect2 ex_dup_loop]
  by auto

section \<open>What the type parsers leave alone\<close>

lemma presI: "(\<And>st x st'. m st = Inr (x, st') \<Longrightarrow> R st st') \<Longrightarrow> pres R m"
  by (simp add: pres_def)

lemma presD: "pres R m \<Longrightarrow> m st = Inr (x, st') \<Longrightarrow> R st st'"
  by (simp add: pres_def)

lemma pres_preturn: "reflp R \<Longrightarrow> pres R (preturn x)"
  by (auto simp: pres_def preturn_def reflp_def)

lemma pres_pfail: "pres R (pfail e)"
  by (simp add: pres_def pfail_def)

lemma pres_error_tok: "pres R (error_tok tok msg)"
  by (simp add: pres_def error_tok_def pfail_def)

lemma pres_pbind: "transp R \<Longrightarrow> pres R m \<Longrightarrow> (\<And>x. pres R (f x)) \<Longrightarrow> pres R (pbind m f)"
  unfolding pres_def pbind_Inr by (blast dest: transpD)

lemma pres_if: "pres R a \<Longrightarrow> pres R b \<Longrightarrow> pres R (if c then a else b)"
  by simp

lemma pres_case_option:
  "pres R a \<Longrightarrow> (\<And>x. pres R (b x)) \<Longrightarrow> pres R (case v of None \<Rightarrow> a | Some x \<Rightarrow> b x)"
  by (cases v) simp_all

lemma pres_case_prod: "(\<And>a b. pres R (f a b)) \<Longrightarrow> pres R (case p of (a, b) \<Rightarrow> f a b)"
  by (cases p) simp

lemma pres_Let: "pres R (f x) \<Longrightarrow> pres R (Let x f)"
  by simp

lemma pres_pgets: "reflp R \<Longrightarrow> pres R (pgets f)"
  by (auto simp: pres_def pgets_def reflp_def)

lemma pres_add_typeP: "reflp R \<Longrightarrow> pres R (add_typeP node)"
  by (auto simp: pres_def add_typeP_def reflp_def split: sum.splits)

lemma frame_ok_advance: "frame_ok R \<Longrightarrow> R st (advance st)"
  by (simp add: frame_ok_def advance_def)

lemma frame_ok_refl: "frame_ok R \<Longrightarrow> R st st"
  by (simp add: frame_ok_def reflp_def)

lemma pres_consume: "frame_ok R \<Longrightarrow> pres R (consume s)"
  by (auto simp: pres_def consume_def frame_ok_advance frame_ok_refl split: option.splits)

lemma pres_consume_ident: "frame_ok R \<Longrightarrow> pres R consume_ident"
  by (auto simp: pres_def consume_ident_def frame_ok_advance frame_ok_refl
      split: list.splits if_splits)

lemma pres_expect: "frame_ok R \<Longrightarrow> pres R (expect s)"
  by (auto simp: pres_def expect_def frame_ok_advance split: option.splits)

lemma pres_expect_number: "frame_ok R \<Longrightarrow> pres R expect_number"
  by (auto simp: pres_def expect_number_def frame_ok_advance split: list.splits if_splits)

lemma pres_expect_ident: "frame_ok R \<Longrightarrow> pres R expect_ident"
  by (auto simp: pres_def expect_ident_def frame_ok_advance split: list.splits if_splits)

lemma pres_pmodify_advance: "frame_ok R \<Longrightarrow> pres R (pmodify advance)"
  by (auto simp: pres_def pmodify_def frame_ok_advance)

lemma pres_pmodify_token: "frame_ok R \<Longrightarrow> pres R (pmodify (\<lambda>st. st\<lparr>token := ts\<rparr>))"
  by (auto simp: pres_def pmodify_def frame_ok_def)

lemma basetype_loop_frame:
  assumes R: "frame_ok R"
  shows "basetype_loop ty st = Inr (x, st') \<Longrightarrow> R st st'"
proof (induction ty st rule: basetype_loop.induct)
  case (1 ty st)
  have tr: "\<And>a b c. R a b \<Longrightarrow> R b c \<Longrightarrow> R a c"
    using R by (auto simp: frame_ok_def dest: transpD)
  show ?case
  proof (cases "peek ''*'' st")
    case None
    with "1.prems" show ?thesis
      by (subst (asm) basetype_loop.simps) (simp add: consume_def frame_ok_refl [OF R])
  next
    case (Some t)
    then have c: "consume ''*'' st = Inr (Some t, advance st)"
      by (simp add: consume_def)
    from "1.prems" have "basetype_loop (pointer_to ty) (advance st) = Inr (x, st')"
      by (subst (asm) basetype_loop.simps) (simp add: c)
    from "1.IH" [OF c refl refl this] frame_ok_advance [OF R, of st] show ?thesis
      by (rule tr [rotated])
  qed
qed

lemma pres_basetype_loop: "frame_ok R \<Longrightarrow> pres R (basetype_loop ty)"
  by (rule presI) (rule basetype_loop_frame)

lemma read_type_suffix_frame:
  assumes R: "frame_ok R"
  shows "read_type_suffix base st = Inr (x, st') \<Longrightarrow> R st st'"
proof (induction base st arbitrary: x st' rule: read_type_suffix.induct)
  case (1 base st)
  have tr: "\<And>a b c. R a b \<Longrightarrow> R b c \<Longrightarrow> R a c"
    using R by (auto simp: frame_ok_def dest: transpD)
  show ?case
  proof (cases "peek ''['' st")
    case None
    with "1.prems" show ?thesis
      by (subst (asm) read_type_suffix.simps) (simp add: consume_def frame_ok_refl [OF R])
  next
    case (Some t)
    then have c: "consume ''['' st = Inr (Some t, advance st)"
      by (simp add: consume_def)
    from "1.prems" obtain sz st2 u st3 b' where
      n: "expect_number (advance st) = Inr (sz, st2)" and e: "expect '']'' st2 = Inr (u, st3)"
      and r: "read_type_suffix base st3 = Inr (b', st')"
      by (subst (asm) read_type_suffix.simps) (auto simp: c split: sum.splits)
    have "R st (advance st)" by (rule frame_ok_advance [OF R])
    moreover have "R (advance st) st2" using presD [OF pres_expect_number [OF R] n] .
    moreover have "R st2 st3" using presD [OF pres_expect [OF R] e] .
    moreover have "R st3 st'" using "1.IH" [OF c refl refl n refl e refl r] .
    ultimately show ?thesis by (blast intro: tr)
  qed
qed

lemma pres_read_type_suffix: "frame_ok R \<Longrightarrow> pres R (read_type_suffix base)"
  by (rule presI) (rule read_type_suffix_frame)

lemma pres_types:
  assumes R: "frame_ok R"
  shows "pres R (basetype n) \<and> pres R (struct_decl n) \<and> pres R (struct_decl_loop n) \<and>
         pres R (struct_member n)"
proof (induction n)
  case 0
  show ?case by (simp add: pres_pfail)
next
  case (Suc n)
  have refl: "reflp R" and trans: "transp R"
    using R by (simp_all add: frame_ok_def)
  note rules = pres_pbind [OF trans] pres_preturn [OF refl] pres_pgets [OF refl] pres_if
    pres_case_prod pres_error_tok pres_pfail pres_consume [OF R] pres_expect [OF R]
    pres_expect_ident [OF R] pres_basetype_loop [OF R] pres_read_type_suffix [OF R]
  from Suc have IH: "pres R (basetype n)" "pres R (struct_decl n)"
    "pres R (struct_decl_loop n)" "pres R (struct_member n)"
    by simp_all
  have "pres R (basetype (Suc n))"
    unfolding basetype.simps by (intro rules IH)
  moreover have "pres R (struct_decl (Suc n))"
    unfolding struct_decl.simps by (intro rules IH)
  moreover have "pres R (struct_decl_loop (Suc n))"
    unfolding struct_decl_loop.simps by (intro rules IH)
  moreover have "pres R (struct_member (Suc n))"
    unfolding struct_member.simps by (intro rules IH)
  ultimately show ?case by simp
qed

lemmas pres_basetype = pres_types [THEN conjunct1]

lemma frame_ok_only_token: "frame_ok only_token"
  by (auto simp: frame_ok_def only_token_def reflp_def transp_def)

lemma only_token_eq: "only_token st st' \<Longrightarrow> st'\<lparr>token := token st\<rparr> = st"
  by (cases st, cases st') (simp add: only_token_def)

section \<open>Function or global variable\<close>

lemma only_token_trans: "only_token a b \<Longrightarrow> only_token b c \<Longrightarrow> only_token a c"
  by (simp add: only_token_def)

text \<open>
  Claim C5. Whenever \<open>is_function\<close> returns, the parser state is exactly the state
  before the call: the token cursor is back where it was, and scope chain, locals,
  globals and variables are untouched. Its answer is whether an identifier and then
  \<^verbatim>\<open>(\<close> follow the base type. So \<^verbatim>\<open>int x;\<close> is parsed from its first token as a
  global variable and \<^verbatim>\<open>int f(){return 0;}\<close> as a function.
\<close>

theorem is_function_rewinds:
  assumes "is_function n st = Inr (b, st')"
  shows "st' = st \<and>
         (\<exists>ty st1. basetype n st = Inr (ty, st1) \<and>
            b = (\<exists>i p rest. token st1 = i # p # rest \<and> tok_kind i = TK_IDENT \<and>
                   is_punct ''('' p))"
proof -
  from assms obtain ty st1 i st2 p st3 where
    bt: "basetype n st = Inr (ty, st1)"
    and ci: "consume_ident st1 = Inr (i, st2)"
    and cp: "(if i \<noteq> None then consume ''('' else preturn None) st2 = Inr (p, st3)"
    and st': "st' = st3\<lparr>token := token st\<rparr>"
    and b: "b = (i \<noteq> None \<and> p \<noteq> None)"
    unfolding is_function_def pbind_Inr pgets_Inr pmodify_Inr preturn_Inr by blast
  note R = frame_ok_only_token
  have "only_token st st1"
    using presD [OF pres_basetype [OF R] bt] .
  moreover have "only_token st1 st2"
    using presD [OF pres_consume_ident [OF R] ci] .
  moreover have "only_token st2 st3"
    using cp presD [OF pres_consume [OF R], of "''(''" st2 p st3]
    by (auto simp: preturn_Inr frame_ok_refl [OF R] split: if_splits)
  ultimately have "only_token st st3"
    by (blast intro: only_token_trans)
  then have "st' = st"
    using st' by (simp add: only_token_eq)
  moreover have "b = (\<exists>i p rest. token st1 = i # p # rest \<and> tok_kind i = TK_IDENT \<and>
                   is_punct ''('' p)"
    using ci cp unfolding b
    by (auto simp: consume_ident_def consume_def peek_def advance_def preturn_def is_punct_def
        split: list.splits if_splits option.splits)
  ultimately show ?thesis using bt by blast
qed

lemma ex_is_function_var:
  "is_function 10 (init_state [tk ''int'', tk_ident ''x'', tk '';'', tk_eof]) =
     Inr (False, \<lparr>token = [tk ''int'', tk_ident ''x'', tk '';'', tk_eof], locals = [],
                  globals = [], scope = [], vars = [], label_cnt = 0\<rparr>)"
  by code_simp

lemma ex_is_function_fn:
  "is_function 10 (init_state [tk ''int'', tk_ident ''f'', tk ''('', tk '')'', tk ''{'',
      tk ''return'', tk_num 0, tk '';'', tk ''}'', tk_eof]) =
     Inr (True, \<lparr>token = [tk ''int'', tk_ident ''f'', tk ''('', tk '')'', tk ''{'',
      tk ''return'', tk_num 0, tk '';'', tk ''}'', tk_eof], locals = [],
                  globals = [], scope = [], vars = [], label_cnt = 0\<rparr>)"
  by code_simp

lemma ex_program_var:
  "program 40 (init_state [tk ''int'', tk_ident ''x'', tk '';'', tk_eof]) =
     Inr (\<lparr>prog_globals = [0], prog_fns = []\<rparr>,
          \<lparr>token = [tk_eof], locals = [], globals = [0], scope = [0],
            vars = [\<lparr>var_name = ''x'', var_ty = int_type, var_is_local = False,
                     var_contents = None, var_cont_len = 0\<rparr>], label_cnt = 0\<rparr>)"
  by code_simp

lemma ex_program_fn:
  "program 40 (init_state [tk ''int'', tk_ident ''f'', tk ''('', tk '')'', tk ''{'',
      tk ''return'', tk_num 0, tk '';'', tk ''}'', tk_eof]) =
     Inr (\<lparr>prog_globals = [],
            prog_fns = [\<lparr>fn_name = ''f'', fn_params = [],
              fn_node = [new_unary ND_RETURN (set_ty (Some int_type) (new_num 0 (Some (tk_num 0))))
                           (Some (tk ''return''))],
              fn_locals = []\<rparr>]\<rparr>,
          init_state [tk_eof])"
  by code_simp

theorem is_function_rewinds_witness:
  "is_function 10 (init_state [tk ''int'', tk_ident ''x'', tk '';'', tk_eof]) =
     Inr (False, init_state [tk ''int'', tk_ident ''x'', tk '';'', tk_eof]) \<and>
   is_function 10 (init_state [tk ''int'', tk_ident ''f'', tk ''('', tk '')'', tk ''{'',
      tk ''return'', tk_num 0, tk '';'', tk ''}'', tk_eof]) =
     Inr (True, init_state [tk ''int'', tk_ident ''f'', tk ''('', tk '')'', tk ''{'',
      tk ''return'', tk_num 0, tk '';'', tk ''}'', tk_eof]) \<and>
   map_sum id fst (program 40 (init_state [tk ''int'', tk_ident ''x'', tk '';'', tk_eof])) =
     Inr \<lparr>prog_globals = [0], prog_fns = []\<rparr> \<and>
   map_sum id (map fn_name \<circ> prog_fns \<circ> fst)
     (program 40 (init_state [tk ''int'', tk_ident ''f'', tk ''('', tk '')'', tk ''{'',
      tk ''return'', tk_num 0, tk '';'', tk ''}'', tk_eof])) = Inr [''f''] \<and>
   map_sum id (prog_globals \<circ> fst)
     (program 40 (init_state [tk ''int'', tk_ident ''f'', tk ''('', tk '')'', tk ''{'',
      tk ''return'', tk_num 0, tk '';'', tk ''}'', tk_eof])) = Inr []"
  using is_function_rewinds [OF ex_is_function_var] is_function_rewinds [OF ex_is_function_fn]
    ex_is_function_var ex_is_function_fn
  by (simp add: ex_program_var ex_program_fn)

section \<open>What statements and expressions leave alone\<close>

lemma ext_refl: "ext st st"
  by (simp add: ext_def)

lemma ext_trans:
  assumes "ext a b" "ext b c"
  shows "ext a c"
proof -
  from assms obtain n1 g1 n2 g2 where
    v1: "vars b = vars a @ n1" and g1: "globals b = g1 @ globals a" "sorted_wrt (>) g1"
      "\<forall>x \<in> set g1. length (vars a) \<le> x \<and> x < length (vars b)"
    and v2: "vars c = vars b @ n2" and g2: "globals c = g2 @ globals b" "sorted_wrt (>) g2"
      "\<forall>x \<in> set g2. length (vars b) \<le> x \<and> x < length (vars c)"
    unfolding ext_def by blast
  have "vars c = vars a @ (n1 @ n2)"
    using v1 v2 by simp
  moreover have "globals c = (g2 @ g1) @ globals a"
    using g1 g2 by simp
  moreover have "sorted_wrt (>) (g2 @ g1)"
    using g1 g2 by (fastforce simp: sorted_wrt_append)
  moreover have "\<forall>x \<in> set (g2 @ g1). length (vars a) \<le> x \<and> x < length (vars c)"
    using g1 g2 v1 v2 by fastforce
  ultimately show ?thesis
    unfolding ext_def by blast
qed

lemma frame_ok_ext: "frame_ok ext"
  unfolding frame_ok_def
proof (intro conjI allI)
  show "reflp ext" by (simp add: reflp_def ext_refl)
  show "transp ext" by (auto simp: transp_def intro: ext_trans)
  show "ext st (st\<lparr>token := ts\<rparr>)" for st ts by (simp add: ext_def)
qed

lemma pres_ext_scope: "pres ext (pmodify (\<lambda>st. st\<lparr>scope := sc\<rparr>))"
  by (simp add: pres_def pmodify_def ext_def)

lemma new_var_Inr:
  "new_var name ty is_local st = Inr (var, st') \<longleftrightarrow>
     var = length (vars st) \<and>
     st' = st\<lparr>vars := vars st @ [\<lparr>var_name = name, var_ty = ty, var_is_local = is_local,
                                    var_contents = None, var_cont_len = 0\<rparr>],
              scope := length (vars st) # scope st\<rparr>"
  by (auto simp: new_var_def Let_def)

lemma new_lvar_Inr:
  "new_lvar name ty st = Inr (var, st') \<longleftrightarrow>
     var = length (vars st) \<and>
     st' = st\<lparr>vars := vars st @ [\<lparr>var_name = name, var_ty = ty, var_is_local = True,
                                    var_contents = None, var_cont_len = 0\<rparr>],
              scope := length (vars st) # scope st,
              locals := length (vars st) # locals st\<rparr>"
  by (auto simp: new_lvar_def pbind_Inr new_var_Inr pmodify_Inr preturn_Inr)

lemma new_gvar_Inr:
  "new_gvar name ty st = Inr (var, st') \<longleftrightarrow>
     var = length (vars st) \<and>
     st' = st\<lparr>vars := vars st @ [\<lparr>var_name = name, var_ty = ty, var_is_local = False,
                                    var_contents = None, var_cont_len = 0\<rparr>],
              scope := length (vars st) # scope st,
              globals := length (vars st) # globals st\<rparr>"
  by (auto simp: new_gvar_def pbind_Inr new_var_Inr pmodify_Inr preturn_Inr)

lemma pres_ext_new_lvar: "pres ext (new_lvar name ty)"
  by (auto simp: pres_def new_lvar_Inr ext_def)

lemma pres_ext_new_gvar: "pres ext (new_gvar name ty)"
  by (auto simp: pres_def new_gvar_Inr ext_def intro: exI [of _ "[length (vars st)]" for st])

lemma pres_ext_string:
  "pres ext (pbind (new_gvar label ty) (\<lambda>var.
     pbind (pmodify (\<lambda>st. st\<lparr>vars := (vars st)[var := f (vars st ! var)]\<rparr>)) (\<lambda>_.
       preturn (g var))))"
proof (rule presI)
  fix st x st'
  assume "pbind (new_gvar label ty) (\<lambda>var.
     pbind (pmodify (\<lambda>st. st\<lparr>vars := (vars st)[var := f (vars st ! var)]\<rparr>)) (\<lambda>_.
       preturn (g var))) st = Inr (x, st')"
  then obtain v where v: "vars st' = vars st @ [v]"
    and g: "globals st' = [length (vars st)] @ globals st"
    by (auto simp: pbind_Inr new_gvar_Inr pmodify_Inr preturn_Inr)
  show "ext st st'"
    unfolding ext_def using v g
    by (intro conjI exI [of _ "[v]"] exI [of _ "[length (vars st)]"]) simp_all
qed

lemma pres_ext_new_label: "pres ext new_label"
  by (auto simp: pres_def new_label_def ext_def)

lemma pres_new_add: "reflp R \<Longrightarrow> transp R \<Longrightarrow> pres R (new_add lhs rhs tok)"
  unfolding new_add_def
  by (intro pres_pbind pres_add_typeP pres_case_prod pres_case_option pres_if pres_preturn
      pres_error_tok pres_pfail)

lemma pres_new_sub: "reflp R \<Longrightarrow> transp R \<Longrightarrow> pres R (new_sub lhs rhs tok)"
  unfolding new_sub_def
  by (intro pres_pbind pres_add_typeP pres_case_prod pres_case_option pres_if pres_preturn
      pres_error_tok pres_pfail)

lemma pres_struct_ref: "frame_ok R \<Longrightarrow> pres R (struct_ref lhs)"
  unfolding struct_ref_def frame_ok_def
  by (intro pres_pbind pres_add_typeP pres_case_option pres_if pres_preturn pres_pgets
      pres_error_tok pres_pfail pres_expect_ident) (simp_all add: frame_ok_def)

lemma pres_all_0: "pres_all R 0"
  by (simp add: pres_all_def pres_pfail)

lemma pres_all_ext: "pres_all ext n"
proof (induction n)
  case 0
  show ?case by (rule pres_all_0)
next
  case (Suc n)
  note R = frame_ok_ext
  have refl: "reflp ext" and trans: "transp ext"
    using R by (simp_all add: frame_ok_def)
  note rules = pres_ext_string pres_pbind [OF trans] pres_preturn [OF refl] pres_pgets [OF refl]
    pres_if pres_case_prod pres_case_option pres_Let pres_error_tok pres_pfail
    pres_consume [OF R] pres_consume_ident [OF R] pres_expect [OF R] pres_expect_ident [OF R]
    pres_expect_number [OF R] pres_read_type_suffix [OF R] pres_basetype [OF R]
    pres_add_typeP [OF refl] pres_new_add [OF refl trans] pres_new_sub [OF refl trans]
    pres_struct_ref [OF R] pres_ext_scope pres_ext_new_lvar pres_ext_new_label
    pres_pmodify_advance [OF R]
  from Suc have IH:
    "pres ext (stmt n)" "pres ext (stmt2 n)" "pres ext (stmt2_loop n)"
    "pres ext (declarationP n)" "pres ext (read_expr_stmt n)" "pres ext (expr n)"
    "pres ext (assign n)" "pres ext (equality n)" "\<And>node. pres ext (equality_loop n node)"
    "pres ext (relational n)" "\<And>node. pres ext (relational_loop n node)"
    "pres ext (add n)" "\<And>node. pres ext (add_loop n node)"
    "pres ext (mul n)" "\<And>node. pres ext (mul_loop n node)"
    "pres ext (unary n)" "pres ext (postfix n)" "\<And>node. pres ext (postfix_loop n node)"
    "\<And>tok. pres ext (stmt_expr n tok)" "pres ext (stmt_expr_loop n)"
    "pres ext (func_args n)" "pres ext (func_args_loop n)" "pres ext (primary n)"
    by (simp_all add: pres_all_def)
  have 1: "pres ext (stmt (Suc n))"
    unfolding stmt.simps by (intro rules IH)
  have 2: "pres ext (stmt2 (Suc n))"
    unfolding stmt2.simps by (intro rules IH)
  have 3: "pres ext (stmt2_loop (Suc n))"
    unfolding stmt2_loop.simps by (intro rules IH)
  have 4: "pres ext (declarationP (Suc n))"
    unfolding declarationP.simps by (intro rules IH)
  have 5: "pres ext (read_expr_stmt (Suc n))"
    unfolding read_expr_stmt.simps by (intro rules IH)
  have 6: "pres ext (expr (Suc n))"
    unfolding expr.simps by (intro rules IH)
  have 7: "pres ext (assign (Suc n))"
    unfolding assign.simps by (intro rules IH)
  have 8: "pres ext (equality (Suc n))"
    unfolding equality.simps by (intro rules IH)
  have 9: "pres ext (equality_loop (Suc n) node)" for node
    unfolding equality_loop.simps by (intro rules IH)
  have 10: "pres ext (relational (Suc n))"
    unfolding relational.simps by (intro rules IH)
  have 11: "pres ext (relational_loop (Suc n) node)" for node
    unfolding relational_loop.simps by (intro rules IH)
  have 12: "pres ext (add (Suc n))"
    unfolding add.simps by (intro rules IH)
  have 13: "pres ext (add_loop (Suc n) node)" for node
    unfolding add_loop.simps by (intro rules IH)
  have 14: "pres ext (mul (Suc n))"
    unfolding mul.simps by (intro rules IH)
  have 15: "pres ext (mul_loop (Suc n) node)" for node
    unfolding mul_loop.simps by (intro rules IH)
  have 16: "pres ext (unary (Suc n))"
    unfolding unary.simps by (intro rules IH)
  have 17: "pres ext (postfix (Suc n))"
    unfolding postfix.simps by (intro rules IH)
  have 18: "pres ext (postfix_loop (Suc n) node)" for node
    unfolding postfix_loop.simps by (intro rules IH)
  have 19: "pres ext (stmt_expr (Suc n) tok)" for tok
    unfolding stmt_expr.simps by (intro rules IH)
  have 20: "pres ext (stmt_expr_loop (Suc n))"
    unfolding stmt_expr_loop.simps by (intro rules IH)
  have 21: "pres ext (func_args (Suc n))"
    unfolding func_args.simps by (intro rules IH)
  have 22: "pres ext (func_args_loop (Suc n))"
    unfolding func_args_loop.simps by (intro rules IH)
  have 23: "pres ext (primary (Suc n))"
    unfolding primary.simps by (intro rules IH)
  show ?case
    unfolding pres_all_def
    using 1 2 3 4 5 6 7 8 9 10 11 12 13 14 15 16 17 18 19 20 21 22 23 by blast
qed

lemmas pres_ext_stmt = pres_all_ext [unfolded pres_all_def, THEN conjunct1]

lemmas pres_ext_stmt2_loop =
  pres_all_ext [unfolded pres_all_def, THEN conjunct2, THEN conjunct2, THEN conjunct1]

lemma pres_ext_locals: "pres ext (pmodify (\<lambda>st. st\<lparr>locals := ls\<rparr>))"
  by (simp add: pres_def pmodify_def ext_def)

lemmas ext_rules =
  pres_ext_string pres_pbind [OF frame_ok_ext [unfolded frame_ok_def, THEN conjunct2, THEN conjunct1]]
  pres_preturn [OF frame_ok_ext [unfolded frame_ok_def, THEN conjunct1]]
  pres_pgets [OF frame_ok_ext [unfolded frame_ok_def, THEN conjunct1]]
  pres_if pres_case_prod pres_case_option pres_Let pres_error_tok pres_pfail
  pres_consume [OF frame_ok_ext] pres_consume_ident [OF frame_ok_ext]
  pres_expect [OF frame_ok_ext] pres_expect_ident [OF frame_ok_ext]
  pres_expect_number [OF frame_ok_ext] pres_read_type_suffix [OF frame_ok_ext]
  pres_basetype [OF frame_ok_ext] pres_ext_scope pres_ext_locals pres_ext_new_lvar
  pres_ext_new_gvar pres_ext_new_label pres_pmodify_token [OF frame_ok_ext] pres_ext_stmt

lemma pres_ext_read_func_param: "pres ext (read_func_param n)"
  unfolding read_func_param_def by (intro ext_rules)

lemma pres_ext_read_func_params_loop: "pres ext (read_func_params_loop n)"
proof (induction n)
  case 0
  show ?case by (simp add: pres_pfail)
next
  case (Suc n)
  show ?case
    unfolding read_func_params_loop.simps by (intro ext_rules pres_ext_read_func_param Suc)
qed

lemma pres_ext_read_func_params: "pres ext (read_func_params n)"
  unfolding read_func_params_def
  by (intro ext_rules pres_ext_read_func_param pres_ext_read_func_params_loop)

lemma pres_ext_function_loop: "pres ext (function_loop n)"
proof (induction n)
  case 0
  show ?case by (simp add: pres_pfail)
next
  case (Suc n)
  show ?case
    unfolding function_loop.simps by (intro ext_rules Suc)
qed

lemma pres_ext_functionP: "pres ext (functionP n)"
  unfolding functionP_def
  by (intro ext_rules pres_ext_read_func_params pres_ext_function_loop)

lemma pres_ext_global_var: "pres ext (global_var n)"
  unfolding global_var_def by (intro ext_rules)

lemma pres_ext_is_function: "pres ext (is_function n)"
  unfolding is_function_def by (intro ext_rules)

lemma pres_ext_program_loop: "pres ext (program_loop n)"
proof (induction n)
  case 0
  show ?case by (simp add: pres_pfail)
next
  case (Suc n)
  show ?case
    unfolding program_loop.simps
    by (intro ext_rules pres_ext_is_function pres_ext_functionP pres_ext_global_var Suc)
qed

section \<open>The order of the globals\<close>

text \<open>
  Claim C8, as stated, fails: after \<^verbatim>\<open>int a; int b;\<close> the program's global list holds
  \<^verbatim>\<open>b\<close> first and \<^verbatim>\<open>a\<close> second.
\<close>

theorem program_globals_order_counterexample:
  "program 40 (init_state [tk ''int'', tk_ident ''a'', tk '';'', tk ''int'', tk_ident ''b'',
      tk '';'', tk_eof]) =
     Inr (\<lparr>prog_globals = [1, 0], prog_fns = []\<rparr>,
          \<lparr>token = [tk_eof], locals = [], globals = [1, 0], scope = [1, 0],
            vars = [\<lparr>var_name = ''a'', var_ty = int_type, var_is_local = False,
                     var_contents = None, var_cont_len = 0\<rparr>,
                    \<lparr>var_name = ''b'', var_ty = int_type, var_is_local = False,
                     var_contents = None, var_cont_len = 0\<rparr>], label_cnt = 0\<rparr>) \<and>
   map (\<lambda>v. var_name ([\<lparr>var_name = ''a'', var_ty = int_type, var_is_local = False,
                     var_contents = None, var_cont_len = 0\<rparr>,
                    \<lparr>var_name = ''b'', var_ty = int_type, var_is_local = False,
                     var_contents = None, var_cont_len = 0\<rparr>] ! v)) [1, 0] = [''b'', ''a'']"
  by code_simp

text \<open>
  Claim C8, amended. \<open>new_gvar\<close> puts the new variable at the head of the globals list,
  before all globals declared earlier. So the global list of a parsed program is in
  reverse declaration order: its variables, all allocated during the parse, stand in
  strictly decreasing order of allocation, the latest first.
\<close>

theorem program_globals_latest_first:
  assumes "program n st = Inr (prog, st')"
  shows "prog_globals prog = globals st' \<and>
         sorted_wrt (>) (prog_globals prog) \<and>
         (\<forall>v \<in> set (prog_globals prog). length (vars st) \<le> v \<and> v < length (vars st')) \<and>
         (\<forall>name ty s v s1. new_gvar name ty s = Inr (v, s1) \<longrightarrow>
            v = length (vars s) \<and> globals s1 = v # globals s \<and>
            var_name (vars s1 ! v) = name \<and> var_ty (vars s1 ! v) = ty)"
proof -
  from assms obtain fns where
    loop: "program_loop n (st\<lparr>globals := []\<rparr>) = Inr (fns, st')"
    and prog: "prog = \<lparr>prog_globals = globals st', prog_fns = fns\<rparr>"
    unfolding program_def pbind_Inr pmodify_Inr pgets_Inr preturn_Inr by blast
  from presD [OF pres_ext_program_loop loop]
  have "ext (st\<lparr>globals := []\<rparr>) st'" .
  then have "sorted_wrt (>) (globals st')"
    "\<forall>v \<in> set (globals st'). length (vars st) \<le> v \<and> v < length (vars st')"
    by (auto simp: ext_def)
  moreover have "\<forall>name ty s v s1. new_gvar name ty s = Inr (v, s1) \<longrightarrow>
            v = length (vars s) \<and> globals s1 = v # globals s \<and>
            var_name (vars s1 ! v) = name \<and> var_ty (vars s1 ! v) = ty"
    by (auto simp: new_gvar_Inr)
  ultimately show ?thesis
    using prog by simp
qed

lemma ex_program_globals:
  "program 40 (init_state [tk ''int'', tk_ident ''a'', tk '';'', tk ''int'', tk_ident ''b'',
      tk '';'', tk_eof]) =
     Inr (\<lparr>prog_globals = [1, 0], prog_fns = []\<rparr>,
          \<lparr>token = [tk_eof], locals = [], globals = [1, 0], scope = [1, 0],
            vars = [\<lparr>var_name = ''a'', var_ty = int_type, var_is_local = False,
                     var_contents = None, var_cont_len = 0\<rparr>,
                    \<lparr>var_name = ''b'', var_ty = int_type, var_is_local = False,
                     var_contents = None, var_cont_len = 0\<rparr>], label_cnt = 0\<rparr>)"
  by code_simp

lemma ex_new_gvar:
  "new_gvar ''b'' int_type
     \<lparr>token = [tk_eof], locals = [], globals = [0], scope = [0],
       vars = [\<lparr>var_name = ''a'', var_ty = int_type, var_is_local = False,
                var_contents = None, var_cont_len = 0\<rparr>], label_cnt = 0\<rparr> =
   Inr (1, \<lparr>token = [tk_eof], locals = [], globals = [1, 0], scope = [1, 0],
            vars = [\<lparr>var_name = ''a'', var_ty = int_type, var_is_local = False,
                     var_contents = None, var_cont_len = 0\<rparr>,
                    \<lparr>var_name = ''b'', var_ty = int_type, var_is_local = False,
                     var_contents = None, var_cont_len = 0\<rparr>], label_cnt = 0\<rparr>)"
  by code_simp

theorem program_globals_latest_first_witness:
  "map_sum id (prog_globals \<circ> fst)
     (program 40 (init_state [tk ''int'', tk_ident ''a'', tk '';'', tk ''int'', tk_ident ''b'',
        tk '';'', tk_eof])) = Inr [1, 0] \<and>
   sorted_wrt (>) [1, 0 :: nat] \<and>
   map_sum id (globals \<circ> snd)
     (new_gvar ''b'' int_type
       \<lparr>token = [tk_eof], locals = [], globals = [0], scope = [0],
         vars = [\<lparr>var_name = ''a'', var_ty = int_type, var_is_local = False,
                  var_contents = None, var_cont_len = 0\<rparr>], label_cnt = 0\<rparr>) = Inr [1, 0]"
  using program_globals_latest_first [OF ex_program_globals]
    program_globals_latest_first [OF ex_program_globals, THEN conjunct2, THEN conjunct2,
      THEN conjunct2, rule_format, OF ex_new_gvar]
  by (simp add: ex_program_globals ex_new_gvar)

section \<open>Block scope\<close>

lemma peek_other: "peek a st = Some t \<Longrightarrow> a \<noteq> b \<Longrightarrow> peek b st = None"
  by (auto simp: peek_def split: list.splits if_splits)

lemma consume_None: "peek s st = None \<Longrightarrow> consume s st = Inr (None, st)"
  by (simp add: consume_def)

lemma consume_Some: "peek s st = Some t \<Longrightarrow> consume s st = Inr (Some t, advance st)"
  by (simp add: consume_def)

lemma name_match: "length a = length b \<and> take (length b) a = b \<longleftrightarrow> a = b"
  by auto

lemma find_var_in_Cons:
  "find_var_in vs (var # vl) tok =
     (if var_name (vs ! var) = tok_str tok then Some var else find_var_in vs vl tok)"
  by (simp add: name_match)

declare find_var_in.simps(2) [simp del]

lemma find_var_in_append:
  "\<forall>v \<in> set sc. v < length vs \<Longrightarrow> find_var_in (vs @ new) sc t = find_var_in vs sc t"
  by (induction sc) (simp_all add: find_var_in_Cons nth_append)

lemma stmt2_block:
  assumes "peek ''{'' st = Some tok"
  shows "stmt2 (Suc k) st =
     pbind (stmt2_loop k) (\<lambda>body.
     pbind (pmodify (\<lambda>s. s\<lparr>scope := scope st\<rparr>)) (\<lambda>_.
       preturn (set_body body (new_node ND_BLOCK (Some tok))))) (advance st)"
proof -
  have "consume ''return'' st = Inr (None, st)" "consume ''if'' st = Inr (None, st)"
    "consume ''while'' st = Inr (None, st)" "consume ''for'' st = Inr (None, st)"
    by (simp_all add: consume_None peek_other [OF assms])
  moreover have "consume ''{'' st = Inr (Some tok, advance st)"
    using assms by (rule consume_Some)
  ultimately show ?thesis
    by (simp add: pbind_step pgets_def)
qed

lemma find_var_in_first_match:
  "find_var_in vs sc t = List.find (\<lambda>v. var_name (vs ! v) = tok_str t) sc"
  by (induction sc) (simp_all add: find_var_in_Cons)

text \<open>
  The block statement. Declaring a local named \<open>x\<close> pushes a fresh variable, distinct
  from every variable on the scope chain, and resolving \<open>x\<close> then returns it. When
  \<open>stmt2\<close> has parsed a block statement \<^verbatim>\<open>{ ... }\<close>, the scope chain is the one saved
  at the block's entry: resolving a name returns the first variable of that chain with
  this name, exactly as before the block, and every variable on the chain is unchanged.
\<close>

theorem block_scope_roundtrip:
  assumes wf: "wf_scope st"
  shows "(\<forall>ty (t :: Token) inner st1. new_lvar (tok_str t) ty st = Inr (inner, st1) \<longrightarrow>
            find_var st1 t = Some inner \<and> inner \<notin> set (scope st) \<and>
            var_ty (vars st1 ! inner) = ty \<and> scope st1 = inner # scope st) \<and>
         (\<forall>n tok node st'. peek ''{'' st = Some tok \<and> stmt2 n st = Inr (node, st') \<longrightarrow>
            nd_kind node = ND_BLOCK \<and> scope st' = scope st \<and>
            (\<forall>t. find_var st' t = find_var st t) \<and>
            (\<forall>t. find_var st' t =
               List.find (\<lambda>v. var_name (vars st ! v) = tok_str t) (scope st)) \<and>
            (\<forall>v \<in> set (scope st). vars st' ! v = vars st ! v))"
proof (intro conjI allI impI)
  fix ty and t :: Token and inner st1
  assume "new_lvar (tok_str t) ty st = Inr (inner, st1)"
  then have inner: "inner = length (vars st)"
    and st1: "vars st1 = vars st @ [\<lparr>var_name = tok_str t, var_ty = ty, var_is_local = True,
                                    var_contents = None, var_cont_len = 0\<rparr>]"
      "scope st1 = length (vars st) # scope st"
    by (simp_all add: new_lvar_Inr)
  show "find_var st1 t = Some inner"
    using inner st1 by (simp add: find_var_def find_var_in_Cons)
  show "inner \<notin> set (scope st)"
    using wf inner by (auto simp: wf_scope_def)
  show "var_ty (vars st1 ! inner) = ty"
    using inner st1 by simp
  show "scope st1 = inner # scope st"
    using inner st1 by simp
next
  fix n tok node st'
  assume a: "peek ''{'' st = Some tok \<and> stmt2 n st = Inr (node, st')"
  then obtain k where n: "n = Suc k"
    by (cases n) (auto simp: pfail_def)
  from a have pk: "peek ''{'' st = Some tok" and "stmt2 (Suc k) st = Inr (node, st')"
    by (simp_all only: n)
  then have "pbind (stmt2_loop k) (\<lambda>body.
     pbind (pmodify (\<lambda>s. s\<lparr>scope := scope st\<rparr>)) (\<lambda>_.
       preturn (set_body body (new_node ND_BLOCK (Some tok))))) (advance st) = Inr (node, st')"
    by (simp only: stmt2_block [OF pk])
  then obtain body st2 where
    loop: "stmt2_loop k (advance st) = Inr (body, st2)"
    and st': "st' = st2\<lparr>scope := scope st\<rparr>"
    and node: "node = set_body body (new_node ND_BLOCK (Some tok))"
    by (auto simp: pbind_Inr pmodify_Inr preturn_Inr)
  from presD [OF pres_ext_stmt2_loop loop]
  obtain new where new: "vars st2 = vars st @ new"
    by (auto simp: ext_def advance_def)
  show "nd_kind node = ND_BLOCK"
    using node by (simp add: set_body_def new_node_def)
  show "scope st' = scope st"
    using st' by simp
  show eq: "find_var st' t = find_var st t" for t
    using st' new wf by (simp add: find_var_def find_var_in_append wf_scope_def)
  show "find_var st' t = List.find (\<lambda>v. var_name (vars st ! v) = tok_str t) (scope st)" for t
    using eq [of t] by (simp add: find_var_def find_var_in_first_match)
  show "\<forall>v \<in> set (scope st). vars st' ! v = vars st ! v"
    using st' new wf by (simp add: wf_scope_def nth_append)
qed

lemma ex_block_wf: "wf_scope ex_block_state"
  by (simp add: wf_scope_def ex_block_state_def)

lemma ex_block_peek: "peek ''{'' ex_block_state = Some (tk ''{'')"
  by code_simp

lemma ex_block_decl: "new_lvar ''x'' char_type ex_block_state = Inr (1, ex_block_inner)"
  by code_simp

lemma ex_block_stmt2: "stmt2 20 ex_block_state = Inr (ex_block_node, ex_block_after)"
  by code_simp

lemma ex_block_find:
  "find_var ex_block_state (tk_ident ''x'') = Some 0"
  "find_var ex_block_inner (tk_ident ''x'') = Some 1"
  "find_var ex_block_after (tk_ident ''x'') = Some 0"
  by code_simp+

theorem block_scope_roundtrip_witness:
  "find_var ex_block_state (tk_ident ''x'') = Some 0 \<and>
   new_lvar ''x'' char_type ex_block_state = Inr (1, ex_block_inner) \<and>
   find_var ex_block_inner (tk_ident ''x'') = Some 1 \<and>
   var_ty (vars ex_block_inner ! 1) = char_type \<and>
   stmt2 20 ex_block_state = Inr (ex_block_node, ex_block_after) \<and>
   map (map_option nd_var \<circ> nd_lhs) (nd_body ex_block_node) = [None, Some (Some 1)] \<and>
   scope ex_block_after = scope ex_block_state \<and>
   find_var ex_block_after (tk_ident ''x'') = Some 0 \<and>
   vars ex_block_after ! 0 = vars ex_block_state ! 0"
proof -
  have name: "tok_str (tk_ident ''x'') = ''x''"
    by (simp add: tk_ident_def)
  have body: "map (map_option nd_var \<circ> nd_lhs) (nd_body ex_block_node) = [None, Some (Some 1)]"
    by code_simp
  from block_scope_roundtrip [OF ex_block_wf, THEN conjunct1, rule_format,
      of "tk_ident ''x''" char_type 1 ex_block_inner]
  have inner: "find_var ex_block_inner (tk_ident ''x'') = Some 1 \<and>
      var_ty (vars ex_block_inner ! 1) = char_type"
    unfolding name using ex_block_decl by simp
  from block_scope_roundtrip [OF ex_block_wf, THEN conjunct2, rule_format,
      of "tk ''{''" 20 ex_block_node ex_block_after]
  have after: "scope ex_block_after = scope ex_block_state \<and>
      find_var ex_block_after (tk_ident ''x'') = find_var ex_block_state (tk_ident ''x'') \<and>
      (\<forall>v \<in> set (scope ex_block_state). vars ex_block_after ! v = vars ex_block_state ! v)"
    using ex_block_peek ex_block_stmt2 by simp
  moreover have "0 \<in> set (scope ex_block_state)"
    by (simp add: ex_block_state_def)
  ultimately show ?thesis
    using inner body ex_block_decl ex_block_stmt2 ex_block_find(1) by simp
qed

text \<open>
  Claim C4 holds of the block statement, as shown above, and fails for the brace block
  of a statement expression: \<open>stmt_expr\<close> parses the statements up to \<^verbatim>\<open>}\<close> as
  \<open>stmt2\<close> does for a block, but never saves or restores the scope chain. In
  \<^verbatim>\<open>int main() { int x; ({ char x; x; }); return x; }\<close> the \<^verbatim>\<open>x\<close> of
  \<^verbatim>\<open>return x\<close> is the inner \<^verbatim>\<open>char\<close> variable (the second one allocated), where
  the claim asks for the outer \<^verbatim>\<open>int\<close> variable; with the block statement
  \<^verbatim>\<open>{ char x; x; }\<close> in its place it is the outer one.
\<close>

theorem stmt_expr_scope_leak:
  "map_sum id (\<lambda>ps. (returned_var ps, map (\<lambda>v. (var_name v, var_ty v)) (vars (snd ps))))
     (program 60 (init_state ex_stmt_expr_scope_tokens)) =
     Inr (Some (ND_VAR, Some 1, Some char_type), [(''x'', int_type), (''x'', char_type)]) \<and>
   map_sum id (\<lambda>ps. (returned_var ps, map (\<lambda>v. (var_name v, var_ty v)) (vars (snd ps))))
     (program 60 (init_state ex_block_scope_tokens)) =
     Inr (Some (ND_VAR, Some 0, Some int_type), [(''x'', int_type), (''x'', char_type)])"
  by code_simp

section \<open>sizeof\<close>

lemma node_fields_new_node [simp]:
  "nd_kind (new_node k t) = k" "nd_tok (new_node k t) = t" "nd_lhs (new_node k t) = None"
  "nd_rhs (new_node k t) = None" "nd_body (new_node k t) = []" "nd_args (new_node k t) = []"
  "nd_val (new_node k t) = 0" "nd_ty (new_node k t) = None"
  by (simp_all add: new_node_def)

lemma nd_kind_set [simp]:
  "nd_kind (set_lhs a n) = nd_kind n" "nd_kind (set_rhs a n) = nd_kind n"
  "nd_kind (set_ty ty n) = nd_kind n" "nd_kind (set_cond a n) = nd_kind n"
  "nd_kind (set_then a n) = nd_kind n" "nd_kind (set_els a n) = nd_kind n"
  "nd_kind (set_init a n) = nd_kind n" "nd_kind (set_inc a n) = nd_kind n"
  "nd_kind (set_body b n) = nd_kind n" "nd_kind (set_member m n) = nd_kind n"
  "nd_kind (set_funcname f n) = nd_kind n" "nd_kind (set_args b n) = nd_kind n"
  "nd_kind (set_var v n) = nd_kind n" "nd_kind (set_val w n) = nd_kind n"
  by (cases n; simp add: set_lhs_def set_rhs_def set_ty_def set_cond_def set_then_def
      set_els_def set_init_def set_inc_def set_body_def set_member_def set_funcname_def
      set_args_def set_var_def set_val_def)+

lemma nd_lhs_set [simp]:
  "nd_lhs (set_lhs a n) = a" "nd_lhs (set_rhs a n) = nd_lhs n"
  "nd_lhs (set_ty ty n) = nd_lhs n" "nd_lhs (set_cond a n) = nd_lhs n"
  "nd_lhs (set_then a n) = nd_lhs n" "nd_lhs (set_els a n) = nd_lhs n"
  "nd_lhs (set_init a n) = nd_lhs n" "nd_lhs (set_inc a n) = nd_lhs n"
  "nd_lhs (set_body b n) = nd_lhs n" "nd_lhs (set_member m n) = nd_lhs n"
  "nd_lhs (set_funcname f n) = nd_lhs n" "nd_lhs (set_args b n) = nd_lhs n"
  "nd_lhs (set_var v n) = nd_lhs n" "nd_lhs (set_val w n) = nd_lhs n"
  by (cases n; simp add: set_lhs_def set_rhs_def set_ty_def set_cond_def set_then_def
      set_els_def set_init_def set_inc_def set_body_def set_member_def set_funcname_def
      set_args_def set_var_def set_val_def)+

lemma new_num_fields:
  "nd_kind (new_num v t) = ND_NUM" "nd_val (new_num v t) = v" "nd_tok (new_num v t) = t"
  "nd_lhs (new_num v t) = None" "nd_rhs (new_num v t) = None" "nd_body (new_num v t) = []"
  "nd_args (new_num v t) = []"
  by (simp_all add: new_num_def new_node_def set_val_def)

lemma add_typeP_Inr:
  "add_typeP node st = Inr (node', st') \<longleftrightarrow> add_type (vars st) node = Inr node' \<and> st' = st"
  by (auto simp: add_typeP_def split: sum.splits)

lemma option_parser_Inr:
  "(case t of None \<Rightarrow> pfail e | Some ty \<Rightarrow> preturn (f ty)) s = Inr (x, s') \<longleftrightarrow>
     (\<exists>ty. t = Some ty \<and> x = f ty \<and> s' = s)"
  by (cases t) (auto simp: pfail_def preturn_def)

lemma primary_sizeof_eq:
  assumes "peek ''sizeof'' st = Some tok"
  shows "primary (Suc n) st =
     pbind (unary n) (\<lambda>node.
     pbind (add_typeP node) (\<lambda>node.
       (case nd_ty node of
          None \<Rightarrow> pfail NullPointer
        | Some ty \<Rightarrow> preturn (new_num (scast (ty_size ty)) (Some tok))))) (advance st)"
proof -
  have "consume ''('' st = Inr (None, st)"
    by (simp add: consume_None peek_other [OF assms])
  moreover have "consume ''sizeof'' st = Inr (Some tok, advance st)"
    using assms by (rule consume_Some)
  ultimately show ?thesis
    by (simp add: pbind_step)
qed

text \<open>
  Claim C7. At a \<^verbatim>\<open>sizeof\<close> token, \<open>primary\<close> returns exactly when the operand parses
  as a unary expression and its type annotation gives it a type; the node returned is
  then the numeric literal, at the \<^verbatim>\<open>sizeof\<close> token, whose value is the size of that
  type. The literal is a leaf: the operand is not part of the tree, and no node kind for
  \<^verbatim>\<open>sizeof\<close> exists.
\<close>

theorem primary_sizeof_literal:
  assumes "peek ''sizeof'' st = Some tok"
  shows "(primary (Suc n) st = Inr (node, st') \<longleftrightarrow>
           (\<exists>operand operand' ty. unary n (advance st) = Inr (operand, st') \<and>
              add_type (vars st') operand = Inr operand' \<and> nd_ty operand' = Some ty \<and>
              node = new_num (scast (ty_size ty)) (Some tok))) \<and>
         (\<forall>ty. nd_kind (new_num (scast (ty_size ty)) (Some tok)) = ND_NUM \<and>
            sint (nd_val (new_num (scast (ty_size ty)) (Some tok))) = sint (ty_size ty) \<and>
            nd_lhs (new_num (scast (ty_size ty)) (Some tok)) = None \<and>
            nd_rhs (new_num (scast (ty_size ty)) (Some tok)) = None \<and>
            nd_body (new_num (scast (ty_size ty)) (Some tok)) = [] \<and>
            nd_args (new_num (scast (ty_size ty)) (Some tok)) = [])"
proof -
  have "primary (Suc n) st = Inr (node, st') \<longleftrightarrow>
           (\<exists>operand operand' ty. unary n (advance st) = Inr (operand, st') \<and>
              add_type (vars st') operand = Inr operand' \<and> nd_ty operand' = Some ty \<and>
              node = new_num (scast (ty_size ty)) (Some tok))"
    unfolding primary_sizeof_eq [OF assms] pbind_Inr add_typeP_Inr option_parser_Inr
    by blast
  moreover have "sint (scast w :: 64 word) = sint w" for w :: "32 word"
    by (simp add: sint_up_scast is_up)
  ultimately show ?thesis
    by (simp add: new_num_fields)
qed

lemma ex_sizeof_peek:
  "peek ''sizeof'' (ex_state\<lparr>token := [tk ''sizeof'', tk_ident ''a'', tk_eof]\<rparr>) = Some (tk ''sizeof'')"
  by code_simp

lemma ex_sizeof_unary:
  "unary 19 (advance (ex_state\<lparr>token := [tk ''sizeof'', tk_ident ''a'', tk_eof]\<rparr>)) =
     Inr (new_var_node 1 (Some (tk_ident ''a'')), ex_state)"
  by code_simp

theorem primary_sizeof_literal_witness:
  "primary (Suc 19) (ex_state\<lparr>token := [tk ''sizeof'', tk_ident ''a'', tk_eof]\<rparr>) =
     Inr (new_num 4 (Some (tk ''sizeof'')), ex_state) \<and>
   var_ty (vars ex_state ! 1) = array_of char_type 4 \<and> ty_size (array_of char_type 4) = 4"
proof -
  have "add_type (vars ex_state) (new_var_node 1 (Some (tk_ident ''a''))) =
      Inr (set_ty (Some (array_of char_type 4)) (new_var_node 1 (Some (tk_ident ''a''))))"
    unfolding ex_vars_state by (rule ex_add_type_var1)
  moreover have "ty_size (array_of char_type 4) = 4"
    by (simp add: array_of_def char_type_def)
  moreover have "var_ty (vars ex_state ! 1) = array_of char_type 4"
    by (simp add: ex_state_def ex_vars_def)
  ultimately show ?thesis
    using primary_sizeof_literal [OF ex_sizeof_peek, of 19
        "new_num 4 (Some (tk ''sizeof''))" ex_state, THEN conjunct1] ex_sizeof_unary
    by (auto simp: nd_ty_set_ty)
qed

section \<open>Statement expressions\<close>

lemma postI: "(\<And>st x st'. m st = Inr (x, st') \<Longrightarrow> Q x) \<Longrightarrow> post Q m"
  by (simp add: post_def)








lemma expr_stmt_ok_simps [simp]:
  "expr_stmt_ok (new_unary k e t)" "k \<noteq> ND_EXPR_STMT \<Longrightarrow> expr_stmt_ok (new_node k t)"
  "expr_stmt_ok (set_els a n) = expr_stmt_ok n" "expr_stmt_ok (set_then a n) = expr_stmt_ok n"
  "expr_stmt_ok (set_cond a n) = expr_stmt_ok n" "expr_stmt_ok (set_init a n) = expr_stmt_ok n"
  "expr_stmt_ok (set_inc a n) = expr_stmt_ok n" "expr_stmt_ok (set_body b n) = expr_stmt_ok n"
  by (simp_all add: expr_stmt_ok_def new_unary_def)















section \<open>Local declarations\<close>

text \<open>
  Claim C10. Let the declarator (base type, identifier, array suffixes) parse and the
  local be declared. If \<^verbatim>\<open>;\<close> follows, \<open>declarationP\<close> returns a null statement
  at the declaration's first token; the variable is the new head of the locals and of
  the scope chain, holds the declared name and type, and \<open>find_var\<close> resolves its name to
  it in the state handed to the following statements. Otherwise, if \<^verbatim>\<open>=\<close>, an
  expression and \<^verbatim>\<open>;\<close> follow, \<open>declarationP\<close> returns the expression statement
  that wraps the assignment of that expression to the new variable.
\<close>

theorem declaration_forms:
  assumes bt: "basetype n st = Inr (ty0, st1)" and id: "expect_ident st1 = Inr (name, st2)"
    and sf: "read_type_suffix ty0 st2 = Inr (ty, st3)"
    and nv: "new_lvar name ty st3 = Inr (var, st4)"
  shows "(peek '';'' st4 \<noteq> None \<longrightarrow>
            declarationP (Suc n) st = Inr (new_node ND_NULL (cur_tok st), advance st4) \<and>
            locals (advance st4) = var # locals st \<and>
            scope (advance st4) = var # scope st \<and>
            vars (advance st4) = vars st @ [\<lparr>var_name = name, var_ty = ty, var_is_local = True,
                                              var_contents = None, var_cont_len = 0\<rparr>] \<and>
            (\<forall>t. tok_str t = name \<longrightarrow> find_var (advance st4) t = Some var)) \<and>
         (peek '';'' st4 = None \<longrightarrow>
            (\<forall>st5 rhs st6 st7. expect ''='' st4 = Inr ((), st5) \<and> expr n st5 = Inr (rhs, st6) \<and>
                expect '';'' st6 = Inr ((), st7) \<longrightarrow>
              declarationP (Suc n) st =
                Inr (new_unary ND_EXPR_STMT
                       (new_binary ND_ASSIGN (new_var_node var (cur_tok st)) rhs (cur_tok st))
                       (cur_tok st), st7))) \<and>
         (\<forall>k t. nd_kind (new_node k t) = k \<and> nd_tok (new_node k t) = t \<and>
            nd_lhs (new_node k t) = None \<and> nd_rhs (new_node k t) = None \<and>
            nd_body (new_node k t) = [] \<and> nd_var (new_node k t) = None) \<and>
         (\<forall>k e t. nd_kind (new_unary k e t) = k \<and> nd_lhs (new_unary k e t) = Some e \<and>
            nd_tok (new_unary k e t) = t) \<and>
         (\<forall>k a b t. nd_kind (new_binary k a b t) = k \<and> nd_lhs (new_binary k a b t) = Some a \<and>
            nd_rhs (new_binary k a b t) = Some b \<and> nd_tok (new_binary k a b t) = t) \<and>
         (\<forall>v t. nd_kind (new_var_node v t) = ND_VAR \<and> nd_var (new_var_node v t) = Some v \<and>
            nd_tok (new_var_node v t) = t)"
proof -
  note R = frame_ok_only_token
  have "only_token st st1" using presD [OF pres_basetype [OF R] bt] .
  moreover have "only_token st1 st2" using presD [OF pres_expect_ident [OF R] id] .
  moreover have "only_token st2 st3" using presD [OF pres_read_type_suffix [OF R] sf] .
  ultimately have same: "locals st3 = locals st" "scope st3 = scope st" "vars st3 = vars st"
    by (simp_all add: only_token_def)
  have var: "var = length (vars st)"
    and st4: "locals st4 = var # locals st" "scope st4 = var # scope st"
      "vars st4 = vars st @ [\<lparr>var_name = name, var_ty = ty, var_is_local = True,
                                var_contents = None, var_cont_len = 0\<rparr>]"
    using nv same by (simp_all add: new_lvar_Inr)
  have run: "declarationP (Suc n) st =
     pbind (consume '';'') (\<lambda>c.
     if c \<noteq> None then preturn (new_node ND_NULL (cur_tok st))
     else
       pbind (expect ''='') (\<lambda>_.
       pbind (expr n) (\<lambda>rhs.
       pbind (expect '';'') (\<lambda>_.
         preturn (new_unary ND_EXPR_STMT
                    (new_binary ND_ASSIGN (new_var_node var (cur_tok st)) rhs (cur_tok st))
                    (cur_tok st)))))) st4"
    using bt id sf nv by (simp add: pbind_step pgets_def)
  have "find_var (advance st4) t = Some var" if "tok_str t = name" for t
    using st4 var that by (simp add: find_var_def advance_def find_var_in_Cons)
  then have forms: "(peek '';'' st4 \<noteq> None \<longrightarrow>
            declarationP (Suc n) st = Inr (new_node ND_NULL (cur_tok st), advance st4) \<and>
            locals (advance st4) = var # locals st \<and>
            scope (advance st4) = var # scope st \<and>
            vars (advance st4) = vars st @ [\<lparr>var_name = name, var_ty = ty, var_is_local = True,
                                              var_contents = None, var_cont_len = 0\<rparr>] \<and>
            (\<forall>t. tok_str t = name \<longrightarrow> find_var (advance st4) t = Some var)) \<and>
         (peek '';'' st4 = None \<longrightarrow>
            (\<forall>st5 rhs st6 st7. expect ''='' st4 = Inr ((), st5) \<and> expr n st5 = Inr (rhs, st6) \<and>
                expect '';'' st6 = Inr ((), st7) \<longrightarrow>
              declarationP (Suc n) st =
                Inr (new_unary ND_EXPR_STMT
                       (new_binary ND_ASSIGN (new_var_node var (cur_tok st)) rhs (cur_tok st))
                       (cur_tok st), st7)))"
    unfolding run using st4
    by (auto simp: consume_def pbind_step preturn_def advance_def)
  have pins: "nd_kind (new_node k t) = k \<and> nd_tok (new_node k t) = t \<and>
            nd_lhs (new_node k t) = None \<and> nd_rhs (new_node k t) = None \<and>
            nd_body (new_node k t) = [] \<and> nd_var (new_node k t) = None"
    "nd_kind (new_unary k e t) = k \<and> nd_lhs (new_unary k e t) = Some e \<and>
            nd_tok (new_unary k e t) = t"
    "nd_kind (new_var_node v t) = ND_VAR \<and> nd_var (new_var_node v t) = Some v \<and>
            nd_tok (new_var_node v t) = t" for k t e v
    by (simp_all add: new_node_def new_unary_def new_var_node_def set_lhs_def set_var_def)
  show ?thesis
    using forms pins by (simp only: new_binary_fields simp_thms)
qed

lemma ex_decl_basetype:
  "basetype 19 (init_state [tk ''int'', tk_ident ''x'', tk '';'', tk_ident ''x'', tk '';'', tk_eof]) =
     Inr (int_type, init_state [tk_ident ''x'', tk '';'', tk_ident ''x'', tk '';'', tk_eof])"
  "basetype 19 (init_state [tk ''int'', tk_ident ''x'', tk ''='', tk_num 5, tk '';'', tk_eof]) =
     Inr (int_type, init_state [tk_ident ''x'', tk ''='', tk_num 5, tk '';'', tk_eof])"
  by code_simp+

lemma ex_decl_ident:
  "expect_ident (init_state [tk_ident ''x'', tk '';'', tk_ident ''x'', tk '';'', tk_eof]) =
     Inr (''x'', init_state [tk '';'', tk_ident ''x'', tk '';'', tk_eof])"
  "expect_ident (init_state [tk_ident ''x'', tk ''='', tk_num 5, tk '';'', tk_eof]) =
     Inr (''x'', init_state [tk ''='', tk_num 5, tk '';'', tk_eof])"
  by code_simp+

lemma ex_decl_suffix:
  "read_type_suffix int_type (init_state [tk '';'', tk_ident ''x'', tk '';'', tk_eof]) =
     Inr (int_type, init_state [tk '';'', tk_ident ''x'', tk '';'', tk_eof])"
  "read_type_suffix int_type (init_state [tk ''='', tk_num 5, tk '';'', tk_eof]) =
     Inr (int_type, init_state [tk ''='', tk_num 5, tk '';'', tk_eof])"
  by code_simp+

lemma ex_decl_new_lvar:
  "new_lvar ''x'' int_type (init_state ts) =
     Inr (0, \<lparr>token = ts, locals = [0], globals = [], scope = [0],
               vars = [ex_var_x int_type], label_cnt = 0\<rparr>)"
  by (simp add: new_lvar_Inr init_state_def ex_var_x_def)

lemma ex_decl_init:
  "expect ''='' \<lparr>token = [tk ''='', tk_num 5, tk '';'', tk_eof], locals = [0], globals = [],
       scope = [0], vars = [ex_var_x int_type], label_cnt = 0\<rparr> =
     Inr ((), \<lparr>token = [tk_num 5, tk '';'', tk_eof], locals = [0], globals = [],
       scope = [0], vars = [ex_var_x int_type], label_cnt = 0\<rparr>)"
  "expr 19 \<lparr>token = [tk_num 5, tk '';'', tk_eof], locals = [0], globals = [],
       scope = [0], vars = [ex_var_x int_type], label_cnt = 0\<rparr> =
     Inr (new_num 5 (Some (tk_num 5)), \<lparr>token = [tk '';'', tk_eof], locals = [0], globals = [],
       scope = [0], vars = [ex_var_x int_type], label_cnt = 0\<rparr>)"
  "expect '';'' \<lparr>token = [tk '';'', tk_eof], locals = [0], globals = [],
       scope = [0], vars = [ex_var_x int_type], label_cnt = 0\<rparr> =
     Inr ((), \<lparr>token = [tk_eof], locals = [0], globals = [],
       scope = [0], vars = [ex_var_x int_type], label_cnt = 0\<rparr>)"
  by code_simp+

lemma ex_decl_peek:
  "peek '';'' \<lparr>token = [tk '';'', tk_ident ''x'', tk '';'', tk_eof], locals = [0], globals = [],
       scope = [0], vars = [ex_var_x int_type], label_cnt = 0\<rparr> \<noteq> None"
  "peek '';'' \<lparr>token = [tk ''='', tk_num 5, tk '';'', tk_eof], locals = [0], globals = [],
       scope = [0], vars = [ex_var_x int_type], label_cnt = 0\<rparr> = None"
  "cur_tok (init_state (tk ''int'' # ts)) = Some (tk ''int'')"
  by code_simp+

theorem declaration_forms_witness:
  "map_sum id (\<lambda>(n, s). (nd_kind n, nd_tok n, nd_lhs n, s))
     (declarationP (Suc 19)
       (init_state [tk ''int'', tk_ident ''x'', tk '';'', tk_ident ''x'', tk '';'', tk_eof])) =
     Inr (ND_NULL, Some (tk ''int''), None,
          \<lparr>token = [tk_ident ''x'', tk '';'', tk_eof], locals = [0], globals = [],
            scope = [0], vars = [ex_var_x int_type], label_cnt = 0\<rparr>) \<and>
   find_var \<lparr>token = [tk_ident ''x'', tk '';'', tk_eof], locals = [0], globals = [],
            scope = [0], vars = [ex_var_x int_type], label_cnt = 0\<rparr> (tk_ident ''x'') = Some 0 \<and>
   map_sum id (\<lambda>(n, s). (nd_kind n,
        map_option (\<lambda>a. (nd_kind a, map_option (\<lambda>v. (nd_kind v, nd_var v)) (nd_lhs a), nd_rhs a))
          (nd_lhs n), s))
     (declarationP (Suc 19)
       (init_state [tk ''int'', tk_ident ''x'', tk ''='', tk_num 5, tk '';'', tk_eof])) =
     Inr (ND_EXPR_STMT,
          Some (ND_ASSIGN, Some (ND_VAR, Some 0), Some (new_num 5 (Some (tk_num 5)))),
          \<lparr>token = [tk_eof], locals = [0], globals = [],
            scope = [0], vars = [ex_var_x int_type], label_cnt = 0\<rparr>) \<and>
   nd_kind (new_num 5 (Some (tk_num 5))) = ND_NUM \<and> nd_val (new_num 5 (Some (tk_num 5))) = 5"
proof -
  have name: "tok_str (tk_ident ''x'') = ''x''"
    by (simp add: tk_ident_def)
  have adv: "advance \<lparr>token = [tk '';'', tk_ident ''x'', tk '';'', tk_eof], locals = [0],
       globals = [], scope = [0], vars = [ex_var_x int_type], label_cnt = 0\<rparr> =
     \<lparr>token = [tk_ident ''x'', tk '';'', tk_eof], locals = [0], globals = [],
            scope = [0], vars = [ex_var_x int_type], label_cnt = 0\<rparr>"
    by (simp add: advance_def)
  note t1 = declaration_forms [OF ex_decl_basetype(1) ex_decl_ident(1) ex_decl_suffix(1)
      ex_decl_new_lvar]
  note t2 = declaration_forms [OF ex_decl_basetype(2) ex_decl_ident(2) ex_decl_suffix(2)
      ex_decl_new_lvar]
  note pins = t1 [THEN conjunct2, THEN conjunct2]
  from t1 [THEN conjunct1, rule_format, OF ex_decl_peek(1)]
  have a: "declarationP (Suc 19)
     (init_state [tk ''int'', tk_ident ''x'', tk '';'', tk_ident ''x'', tk '';'', tk_eof]) =
     Inr (new_node ND_NULL (Some (tk ''int'')),
          \<lparr>token = [tk_ident ''x'', tk '';'', tk_eof], locals = [0], globals = [],
            scope = [0], vars = [ex_var_x int_type], label_cnt = 0\<rparr>)"
    and b: "find_var \<lparr>token = [tk_ident ''x'', tk '';'', tk_eof], locals = [0], globals = [],
            scope = [0], vars = [ex_var_x int_type], label_cnt = 0\<rparr> (tk_ident ''x'') = Some 0"
    using name by (auto simp: adv ex_decl_peek(3))
  from t2 [THEN conjunct2, THEN conjunct1, rule_format, OF ex_decl_peek(2),
      OF conjI [OF ex_decl_init(1) conjI [OF ex_decl_init(2) ex_decl_init(3)]]]
  have c: "declarationP (Suc 19)
     (init_state [tk ''int'', tk_ident ''x'', tk ''='', tk_num 5, tk '';'', tk_eof]) =
     Inr (new_unary ND_EXPR_STMT
            (new_binary ND_ASSIGN (new_var_node 0 (Some (tk ''int''))) (new_num 5 (Some (tk_num 5)))
               (Some (tk ''int''))) (Some (tk ''int'')),
          \<lparr>token = [tk_eof], locals = [0], globals = [],
            scope = [0], vars = [ex_var_x int_type], label_cnt = 0\<rparr>)"
    by (simp add: ex_decl_peek(3))
  have num: "nd_kind (new_num 5 (Some (tk_num 5))) = ND_NUM"
    "nd_val (new_num 5 (Some (tk_num 5))) = 5"
    by (simp_all add: new_num_fields)
  show ?thesis
    unfolding a c using b num pins by simp
qed

end
